theory Spec2Isabelle
  imports Complex_Main "HOL-Library.AList"
begin

section \<open>Python values exchanged between pipeline nodes\<close>

text \<open>
  The scripts under \<^verbatim>\<open>docs/python-examples\<close> receive \<^verbatim>\<open>input_data\<close> from the previous
  node as an arbitrary JSON-like Python value.  A dictionary is kept as an association
  list in insertion order (the order \<^verbatim>\<open>.items()\<close> iterates in); its keys are strings.
\<close>

datatype pyval =
    PNone
  | PBool bool
  | PInt int
  | PFloat real
  | PStr string
  | PList "pyval list"
  | PDict "(string \<times> pyval) list"

datatype py_error = TypeError | AttributeError | KeyError | ZeroDivisionError

text \<open>Python truth value testing, as used by \<^verbatim>\<open>if x\<close>, \<^verbatim>\<open>x and y\<close>, \<^verbatim>\<open>x or y\<close>.\<close>

fun truthy :: "pyval \<Rightarrow> bool" where
  "truthy PNone = False"
| "truthy (PBool b) = b"
| "truthy (PInt i) = (i \<noteq> 0)"
| "truthy (PFloat x) = (x \<noteq> 0)"
| "truthy (PStr s) = (s \<noteq> [])"
| "truthy (PList xs) = (xs \<noteq> [])"
| "truthy (PDict d) = (d \<noteq> [])"

text \<open>\<^verbatim>\<open>isinstance(x, dict)\<close>.\<close>

fun is_dict :: "pyval \<Rightarrow> bool" where
  "is_dict (PDict d) = True"
| "is_dict v = False"

text \<open>\<^verbatim>\<open>d.get(k, default)\<close> and \<^verbatim>\<open>d[k] = v\<close> on a dictionary.\<close>

definition dict_get :: "('k \<times> 'v) list \<Rightarrow> 'k \<Rightarrow> 'v \<Rightarrow> 'v" where
  "dict_get d k dflt = (case map_of d k of None \<Rightarrow> dflt | Some v \<Rightarrow> v)"

definition dict_set :: "'k \<Rightarrow> 'v \<Rightarrow> ('k \<times> 'v) list \<Rightarrow> ('k \<times> 'v) list" where
  "dict_set k v d = AList.update k v d"

definition dict_keys :: "('k \<times> 'v) list \<Rightarrow> 'k list" where
  "dict_keys d = map fst d"

text \<open>\<^verbatim>\<open>needle in haystack\<close> on two strings: contiguous substring test.\<close>

fun starts_with :: "string \<Rightarrow> string \<Rightarrow> bool" where
  "starts_with s [] = True"
| "starts_with [] (k # ks) = False"
| "starts_with (c # cs) (k # ks) = (c = k \<and> starts_with cs ks)"

fun str_contains :: "string \<Rightarrow> string \<Rightarrow> bool" where
  "str_contains [] k = (k = [])"
| "str_contains (c # cs) k = (starts_with (c # cs) k \<or> str_contains cs k)"

text \<open>
  \<^verbatim>\<open>key in x\<close> for a string \<^verbatim>\<open>key\<close>: key test on a dictionary, element test on a list,
  substring test on a string, \<^verbatim>\<open>TypeError\<close> on a value that is not a container.
\<close>

fun py_in :: "string \<Rightarrow> pyval \<Rightarrow> py_error + bool" where
  "py_in key (PDict d) = Inr (key \<in> set (dict_keys d))"
| "py_in key (PList xs) = Inr (PStr key \<in> set xs)"
| "py_in key (PStr s) = Inr (str_contains s key)"
| "py_in key v = Inl TypeError"

text \<open>\<^verbatim>\<open>x[key]\<close> for a string \<^verbatim>\<open>key\<close>.\<close>

fun py_getitem :: "pyval \<Rightarrow> string \<Rightarrow> py_error + pyval" where
  "py_getitem (PDict d) key = (case map_of d key of None \<Rightarrow> Inl KeyError | Some v \<Rightarrow> Inr v)"
| "py_getitem v key = Inl TypeError"

text \<open>
  \<^verbatim>\<open>x.items()\<close>: only a dictionary has the method.  In
  \<^verbatim>\<open>room-assignment-transform.py\<close> the call is preceded by \<^verbatim>\<open>len(x)\<close>, which already
  raises \<^verbatim>\<open>TypeError\<close> on \<^verbatim>\<open>None\<close>, booleans and numbers.
\<close>

fun py_items :: "pyval \<Rightarrow> py_error + (string \<times> pyval) list" where
  "py_items (PDict d) = Inr d"
| "py_items v = Inl AttributeError"

fun py_len_items :: "pyval \<Rightarrow> py_error + (string \<times> pyval) list" where
  "py_len_items (PDict d) = Inr d"
| "py_len_items (PStr s) = Inl AttributeError"
| "py_len_items (PList xs) = Inl AttributeError"
| "py_len_items v = Inl TypeError"

section \<open>Mapping transformer, GlobalId-keyed (\<^verbatim>\<open>room-assignment-transform.py\<close>)\<close>

text \<open>
  The space-name validity test of both transformer scripts:
  \<^verbatim>\<open>space_name and space_name != 'None'\<close>.
\<close>

definition valid_space_name :: "pyval \<Rightarrow> bool" where
  "valid_space_name space_name = (truthy space_name \<and> space_name \<noteq> PStr ''None'')"

text \<open>
  Loop state: \<^verbatim>\<open>wall_mappings\<close>, \<^verbatim>\<open>walls_found\<close>, \<^verbatim>\<open>other_elements_skipped\<close>.
  \<^verbatim>\<open>sample_count\<close> only limits what is printed and is left out.
  \<^verbatim>\<open>space_info.get\<close> raises \<^verbatim>\<open>AttributeError\<close> when \<^verbatim>\<open>space_info\<close> is not a dictionary.
\<close>

type_synonym transform_state = "(string \<times> pyval) list \<times> int \<times> int"

fun transform_loop ::
  "string list \<Rightarrow> (string \<times> pyval) list \<Rightarrow> transform_state \<Rightarrow> py_error + transform_state" where
  "transform_loop wall_global_ids [] st = Inr st"
| "transform_loop wall_global_ids ((global_id, space_info) # rest)
       (wall_mappings, walls_found, other_elements_skipped) =
     (if global_id \<in> set wall_global_ids then
        (case space_info of
           PDict si \<Rightarrow>
             (let space_name = dict_get si ''spaceName'' (PStr '''') in
              if valid_space_name space_name then
                transform_loop wall_global_ids rest
                  (dict_set global_id space_name wall_mappings, walls_found + 1,
                   other_elements_skipped)
              else
                transform_loop wall_global_ids rest
                  (wall_mappings, walls_found, other_elements_skipped))
         | _ \<Rightarrow> Inl AttributeError)
      else
        transform_loop wall_global_ids rest
          (wall_mappings, walls_found, other_elements_skipped + 1))"

definition transform_result :: "transform_state \<Rightarrow> pyval" where
  "transform_result st =
     (case st of (wall_mappings, walls_found, other_elements_skipped) \<Rightarrow>
        PDict [(''mappings'', PDict wall_mappings),
               (''metadata'',
                  PDict [(''wallsFound'', PInt walls_found),
                         (''otherElementsSkipped'', PInt other_elements_skipped),
                         (''totalMappings'', PInt (int (length wall_mappings)))])])"

definition no_assignment_data :: pyval where
  "no_assignment_data =
     PDict [(''mappings'', PDict []),
            (''metadata'', PDict [(''error'', PStr ''No room assignment data found'')])]"

text \<open>
  The whole script.  \<^verbatim>\<open>wall_global_ids\<close> is the set the script collects from
  \<^verbatim>\<open>model.by_type('IfcWall')\<close> (empty when there is no usable model); the model
  itself belongs to the host.
\<close>

definition transform :: "pyval \<Rightarrow> string list \<Rightarrow> py_error + pyval" where
  "transform input_data wall_global_ids =
     (case input_data of
        PDict d \<Rightarrow>
          (if truthy input_data \<and> ''elementSpaceMap'' \<in> set (dict_keys d) then
             (case py_len_items (dict_get d ''elementSpaceMap'' PNone) of
                Inl e \<Rightarrow> Inl e
              | Inr element_space_map \<Rightarrow>
                  (case transform_loop wall_global_ids element_space_map ([], 0, 0) of
                     Inl e \<Rightarrow> Inl e
                   | Inr st \<Rightarrow> Inr (transform_result st)))
           else Inr no_assignment_data)
      | _ \<Rightarrow> Inr no_assignment_data)"

text \<open>Reading the script's result.\<close>

definition result_mappings :: "pyval \<Rightarrow> (string \<times> pyval) list" where
  "result_mappings r =
     (case r of PDict d \<Rightarrow> (case map_of d ''mappings'' of Some (PDict m) \<Rightarrow> m | _ \<Rightarrow> [])
      | _ \<Rightarrow> [])"

definition result_metadata :: "pyval \<Rightarrow> string \<Rightarrow> pyval option" where
  "result_metadata r key =
     (case r of PDict d \<Rightarrow> (case map_of d ''metadata'' of Some (PDict m) \<Rightarrow> map_of m key | _ \<Rightarrow> None)
      | _ \<Rightarrow> None)"

section \<open>Mapping transformer with element lookup (\<^verbatim>\<open>room-assignment-to-walls.py\<close>)\<close>

text \<open>
  The host passes \<^verbatim>\<open>inputs['model']['elements']\<close>, a list of element summaries.  The
  script reads three strings from each: \<^verbatim>\<open>elem.get('id', '')\<close>,
  \<^verbatim>\<open>elem.get('properties', {}).get('GlobalId', '')\<close> and \<^verbatim>\<open>elem.get('type', '')\<close>;
  a missing key reads as the empty string.
\<close>

record host_element =
  elem_id :: string
  elem_global_id :: string
  elem_type :: string

text \<open>\<^verbatim>\<open>element_lookup\<close>: element id to (\<^verbatim>\<open>GlobalId\<close>, \<^verbatim>\<open>type\<close>).\<close>

type_synonym element_lookup = "(string \<times> (string \<times> string)) list"

fun build_element_lookup :: "host_element list \<Rightarrow> element_lookup \<Rightarrow> element_lookup" where
  "build_element_lookup [] element_lookup = element_lookup"
| "build_element_lookup (elem # rest) element_lookup =
     (if elem_id elem \<noteq> [] \<and> elem_global_id elem \<noteq> [] then
        build_element_lookup rest
          (dict_set (elem_id elem) (elem_global_id elem, elem_type elem) element_lookup)
      else build_element_lookup rest element_lookup)"

text \<open>
  An entry whose id is not in \<^verbatim>\<open>element_lookup\<close> changes no counter: the \<^verbatim>\<open>else\<close>
  that counts skipped elements belongs to the test on the element type.
\<close>

fun to_walls_loop ::
  "element_lookup \<Rightarrow> (string \<times> pyval) list \<Rightarrow> transform_state \<Rightarrow> py_error + transform_state" where
  "to_walls_loop element_lookup [] st = Inr st"
| "to_walls_loop element_lookup ((eid, space_info) # rest)
       (wall_mappings, walls_found, other_elements_skipped) =
     (case map_of element_lookup eid of
        None \<Rightarrow>
          to_walls_loop element_lookup rest (wall_mappings, walls_found, other_elements_skipped)
      | Some (global_id, etype) \<Rightarrow>
          (if etype = ''IfcWall'' then
             (case space_info of
                PDict si \<Rightarrow>
                  (let space_name = dict_get si ''spaceName'' (PStr '''') in
                   if valid_space_name space_name then
                     to_walls_loop element_lookup rest
                       (dict_set global_id space_name wall_mappings, walls_found + 1,
                        other_elements_skipped)
                   else
                     to_walls_loop element_lookup rest
                       (wall_mappings, walls_found, other_elements_skipped))
              | _ \<Rightarrow> Inl AttributeError)
           else
             to_walls_loop element_lookup rest
               (wall_mappings, walls_found, other_elements_skipped + 1)))"

text \<open>
  The whole script.  \<^verbatim>\<open>input_data = inputs.get('input', {})\<close>: \<open>None\<close> stands for an
  \<^verbatim>\<open>inputs\<close> without the key.  The membership test is not guarded by a type test, so
  it can raise; when it is false the input is returned as it is.
\<close>

definition to_walls :: "pyval option \<Rightarrow> host_element list \<Rightarrow> py_error + pyval" where
  "to_walls inp elements =
     (let input_data = (case inp of None \<Rightarrow> PDict [] | Some v \<Rightarrow> v) in
      case py_in ''elementSpaceMap'' input_data of
        Inl e \<Rightarrow> Inl e
      | Inr False \<Rightarrow> Inr input_data
      | Inr True \<Rightarrow>
          (case py_getitem input_data ''elementSpaceMap'' of
             Inl e \<Rightarrow> Inl e
           | Inr element_space_map \<Rightarrow>
               (let element_lookup = build_element_lookup elements [] in
                case py_items element_space_map of
                  Inl e \<Rightarrow> Inl e
                | Inr items \<Rightarrow>
                    (case to_walls_loop element_lookup items ([], 0, 0) of
                       Inl e \<Rightarrow> Inl e
                     | Inr st \<Rightarrow> Inr (transform_result st)))))"

section \<open>Reading the assignment table in \<^verbatim>\<open>add-room-info-example.py\<close>\<close>

text \<open>Lines 12 to 19: \<^verbatim>\<open>space_assignments\<close> stays \<^verbatim>\<open>None\<close> unless one of the two keys is there.\<close>

definition space_assignments :: "pyval \<Rightarrow> pyval" where
  "space_assignments input_data =
     (case input_data of
        PDict d \<Rightarrow>
          (if truthy input_data then
             (if ''elementSpaceMap'' \<in> set (dict_keys d) then dict_get d ''elementSpaceMap'' PNone
              else if ''element_space_map'' \<in> set (dict_keys d) then
                dict_get d ''element_space_map'' PNone
              else PNone)
           else PNone)
      | _ \<Rightarrow> PNone)"

section \<open>What an entry of the table carries\<close>

text \<open>The space name an entry of the table carries, read as both scripts read it.\<close>

definition entry_space_name :: "pyval \<Rightarrow> pyval" where
  "entry_space_name space_info =
     (case space_info of PDict si \<Rightarrow> dict_get si ''spaceName'' (PStr '''') | _ \<Rightarrow> PStr '''')"


section \<open>The building model read by \<^verbatim>\<open>space-analysis-example.py\<close>\<close>

text \<open>
  The scripts read the model through \<^verbatim>\<open>ifcopenshell\<close>.  An entity instance carries the
  attributes the scripts touch; \<open>step_id\<close> is the instance's identity in the file, which
  is what \<^verbatim>\<open>==\<close> and \<^verbatim>\<open>in\<close> compare, and \<open>ifc_class\<close> is what \<^verbatim>\<open>is_a()\<close> returns.
  An optional attribute that is not set reads as \<^verbatim>\<open>None\<close>.
\<close>

record entity =
  step_id :: nat
  GlobalId :: string
  ifc_class :: string
  Name :: "string option"
  ObjectType :: "string option"
  Description :: "string option"

record rel_aggregates =
  RelatingObject :: entity
  RelatedObjects :: "entity list"

record rel_contained =
  RelatingStructure :: entity
  RelatedElements :: "entity list"

record rel_assigns_to_group =
  RelatingGroup :: entity
  RelatedObjects_of_group :: "entity list"

text \<open>
  \<^verbatim>\<open>get_psets\<close> gives property sets by name, each a dictionary of numeric quantities;
  \<open>None\<close> stands for a call that raises (the script catches it and prints a message).
  The fields are the results of \<^verbatim>\<open>model.by_type(...)\<close> for the seven classes asked for.
\<close>

type_synonym psets = "(string \<times> (string \<times> real) list) list"

record ifc_model =
  IfcSpace :: "entity list"
  IfcZone :: "entity list"
  IfcBuildingStorey :: "entity list"
  IfcRelAggregates :: "rel_aggregates list"
  IfcRelContainedInSpatialStructure :: "rel_contained list"
  IfcRelAssignsToGroup :: "rel_assigns_to_group list"
  IfcElement :: "entity list"
  get_psets :: "entity \<Rightarrow> psets option"

text \<open>\<^verbatim>\<open>attr or default\<close> on an optional string: the default replaces \<^verbatim>\<open>None\<close> and \<^verbatim>\<open>''\<close>.\<close>

definition str_or :: "string option \<Rightarrow> string \<Rightarrow> string" where
  "str_or attr dflt = (case attr of None \<Rightarrow> dflt | Some s \<Rightarrow> if s = [] then dflt else s)"

text \<open>
  \<^verbatim>\<open>e.is_a(c)\<close> for the two classes the scripts test, \<^verbatim>\<open>IfcBuildingStorey\<close> and
  \<^verbatim>\<open>IfcSpace\<close>: neither has a subtype in the schema, so the test is on the class name.
\<close>

definition is_a :: "entity \<Rightarrow> string \<Rightarrow> bool" where
  "is_a e c = (ifc_class e = c)"

subsection \<open>Records the analysis produces\<close>

record element_info =
  ei_id :: string
  ei_type :: string
  ei_name :: string

record space_assignment =
  space_id :: string
  space_name :: string
  space_type :: string
  storey :: "string option"

record space_info =
  si_id :: string
  si_name :: string
  si_type :: string
  si_description :: string
  si_storey :: "string option"
  si_elements :: "element_info list"
  si_area :: real
  si_volume :: real
  si_height :: real
  si_element_count :: nat

record zone_member =
  zm_id :: string
  zm_name :: string

record zone_info =
  zi_id :: string
  zi_name :: string
  zi_type :: string
  zi_description :: string
  zi_spaces :: "zone_member list"

type_synonym element_space_map = "(string \<times> space_assignment) list"

subsection \<open>Per-space resolution (lines 33 to 93)\<close>

text \<open>
  The name and type of a space, with their fallbacks.  \<^verbatim>\<open>add-room-info-example.py\<close>
  (lines 37 and 38) computes them with the same two expressions.
\<close>

definition space_name_of :: "entity \<Rightarrow> string" where
  "space_name_of space = str_or (Name space) (''Space_'' @ take 8 (GlobalId space))"

definition space_type_of :: "entity \<Rightarrow> string" where
  "space_type_of space = str_or (ObjectType space) ''Generic''"

text \<open>
  The storey of a space: the loop over \<^verbatim>\<open>IfcRelAggregates\<close> that stops at the first
  relationship passing both tests (lines 47 to 50; the same loop is at lines 42 to 45
  of \<^verbatim>\<open>add-room-info-example.py\<close>).  The value starts as \<^verbatim>\<open>None\<close>.
\<close>

fun storey_of :: "rel_aggregates list \<Rightarrow> entity \<Rightarrow> string option" where
  "storey_of [] space = None"
| "storey_of (rel # rels) space =
     (if space \<in> set (RelatedObjects rel) \<and> is_a (RelatingObject rel) ''IfcBuildingStorey''
      then Name (RelatingObject rel)
      else storey_of rels space)"

text \<open>
  Area, volume and height from \<^verbatim>\<open>Qto_SpaceBaseQuantities\<close>, each \<open>0\<close> when missing.  The
  two occupancy keys copied from \<^verbatim>\<open>Pset_SpaceCommon\<close> are read by no later step of
  the script and are not part of \<open>space_info\<close>.
\<close>

definition space_quantities :: "psets option \<Rightarrow> real \<times> real \<times> real" where
  "space_quantities ps =
     (case ps of
        None \<Rightarrow> (0, 0, 0)
      | Some psets \<Rightarrow>
          (case map_of psets ''Qto_SpaceBaseQuantities'' of
             None \<Rightarrow> (0, 0, 0)
           | Some quantities \<Rightarrow>
               (dict_get quantities ''NetFloorArea'' 0,
                dict_get quantities ''NetVolume'' 0,
                dict_get quantities ''Height'' 0)))"

definition element_info_of :: "entity \<Rightarrow> element_info" where
  "element_info_of element =
     \<lparr>ei_id = GlobalId element,
      ei_type = ifc_class element,
      ei_name = str_or (Name element) (ifc_class element @ ''_'' @ take 8 (GlobalId element))\<rparr>"

text \<open>
  The two nested loops of lines 73 to 89.  The state is \<^verbatim>\<open>contained_elements\<close> and
  \<^verbatim>\<open>element_space_map\<close>; \<open>a\<close> is the dictionary stored for every element of the space.
\<close>

fun contain_elements ::
  "entity list \<Rightarrow> space_assignment \<Rightarrow> element_info list \<times> element_space_map
     \<Rightarrow> element_info list \<times> element_space_map" where
  "contain_elements [] a st = st"
| "contain_elements (element # rest) a (contained_elements, esm) =
     contain_elements rest a
       (contained_elements @ [element_info_of element], dict_set (GlobalId element) a esm)"

fun contain_rels ::
  "rel_contained list \<Rightarrow> entity \<Rightarrow> space_assignment \<Rightarrow> element_info list \<times> element_space_map
     \<Rightarrow> element_info list \<times> element_space_map" where
  "contain_rels [] space a st = st"
| "contain_rels (rel # rels) space a st =
     (if RelatingStructure rel = space
      then contain_rels rels space a (contain_elements (RelatedElements rel) a st)
      else contain_rels rels space a st)"

definition assignment_of :: "ifc_model \<Rightarrow> entity \<Rightarrow> space_assignment" where
  "assignment_of model space =
     \<lparr>space_id = GlobalId space,
      space_name = space_name_of space,
      space_type = space_type_of space,
      storey = storey_of (IfcRelAggregates model) space\<rparr>"

definition process_space ::
  "ifc_model \<Rightarrow> entity \<Rightarrow> element_space_map \<Rightarrow> space_info \<times> element_space_map" where
  "process_space model space esm =
     (let (area, volume, height) = space_quantities (get_psets model space);
          (contained_elements, esm') =
             contain_rels (IfcRelContainedInSpatialStructure model) space
               (assignment_of model space) ([], esm)
      in (\<lparr>si_id = GlobalId space,
           si_name = space_name_of space,
           si_type = space_type_of space,
           si_description = str_or (Description space) '''',
           si_storey = storey_of (IfcRelAggregates model) space,
           si_elements = contained_elements,
           si_area = area,
           si_volume = volume,
           si_height = height,
           si_element_count = length contained_elements\<rparr>, esm'))"

text \<open>The loop over the spaces: \<^verbatim>\<open>space_data\<close> and \<^verbatim>\<open>element_space_map\<close> are the state.\<close>

fun process_spaces ::
  "ifc_model \<Rightarrow> entity list \<Rightarrow> space_info list \<times> element_space_map
     \<Rightarrow> space_info list \<times> element_space_map" where
  "process_spaces model [] st = st"
| "process_spaces model (space # rest) (space_data, esm) =
     (let (info, esm') = process_space model space esm
      in process_spaces model rest (space_data @ [info], esm'))"

subsection \<open>Zones (lines 96 to 116)\<close>

fun zone_members :: "entity list \<Rightarrow> zone_member list \<Rightarrow> zone_member list" where
  "zone_members [] acc = acc"
| "zone_members (obj # rest) acc =
     (if is_a obj ''IfcSpace''
      then zone_members rest (acc @ [\<lparr>zm_id = GlobalId obj, zm_name = str_or (Name obj) ''''\<rparr>])
      else zone_members rest acc)"

fun zone_rels :: "rel_assigns_to_group list \<Rightarrow> entity \<Rightarrow> zone_member list \<Rightarrow> zone_member list" where
  "zone_rels [] zone acc = acc"
| "zone_rels (rel # rels) zone acc =
     (if RelatingGroup rel = zone
      then zone_rels rels zone (zone_members (RelatedObjects_of_group rel) acc)
      else zone_rels rels zone acc)"

definition process_zone :: "ifc_model \<Rightarrow> entity \<Rightarrow> zone_info" where
  "process_zone model zone =
     \<lparr>zi_id = GlobalId zone,
      zi_name = str_or (Name zone) (''Zone_'' @ take 8 (GlobalId zone)),
      zi_type = str_or (ObjectType zone) ''Generic'',
      zi_description = str_or (Description zone) '''',
      zi_spaces = zone_rels (IfcRelAssignsToGroup model) zone []\<rparr>"

subsection \<open>Unassigned elements (lines 119 to 136)\<close>

text \<open>The inner loop with \<^verbatim>\<open>break\<close>: is the element related by any containment relationship?\<close>

fun in_storey :: "rel_contained list \<Rightarrow> entity \<Rightarrow> bool" where
  "in_storey [] element = False"
| "in_storey (rel # rels) element =
     (if element \<in> set (RelatedElements rel) then True else in_storey rels element)"

fun find_unassigned ::
  "ifc_model \<Rightarrow> element_space_map \<Rightarrow> entity list \<Rightarrow> element_info list \<Rightarrow> element_info list" where
  "find_unassigned model esm [] unassigned = unassigned"
| "find_unassigned model esm (element # rest) unassigned =
     (if GlobalId element \<notin> set (dict_keys esm) then
        (if \<not> in_storey (IfcRelContainedInSpatialStructure model) element
         then find_unassigned model esm rest (unassigned @ [element_info_of element])
         else find_unassigned model esm rest unassigned)
      else find_unassigned model esm rest unassigned)"

subsection \<open>Summary statistics (lines 139 to 203)\<close>

text \<open>
  Numbers are exact reals here: the rounding error of floating-point addition is not
  modelled.  \<^verbatim>\<open>a / b\<close> raises on a zero divisor.  \<^verbatim>\<open>round(x, n)\<close> rounds to \<open>n\<close> decimals,
  a tie going to the even neighbour.
\<close>

definition py_truediv :: "real \<Rightarrow> real \<Rightarrow> py_error + real" where
  "py_truediv a b = (if b = 0 then Inl ZeroDivisionError else Inr (a / b))"

definition round_half_even :: "real \<Rightarrow> int" where
  "round_half_even x =
     (let f = \<lfloor>x\<rfloor>; d = x - of_int f
      in if d < 1 / 2 then f else if 1 / 2 < d then f + 1 else if even f then f else f + 1)"

definition py_round :: "real \<Rightarrow> nat \<Rightarrow> real" where
  "py_round x n = of_int (round_half_even (x * 10 ^ n)) / 10 ^ n"

record type_stats =
  ts_count :: nat
  ts_total_area :: real
  ts_spaces :: "string list"

fun group_by_type ::
  "space_info list \<Rightarrow> (string \<times> type_stats) list \<Rightarrow> (string \<times> type_stats) list" where
  "group_by_type [] space_types = space_types"
| "group_by_type (space # rest) space_types =
     (let old = dict_get space_types (si_type space)
                  \<lparr>ts_count = 0, ts_total_area = 0, ts_spaces = []\<rparr>
      in group_by_type rest
           (dict_set (si_type space)
              \<lparr>ts_count = ts_count old + 1,
               ts_total_area = ts_total_area old + si_area space,
               ts_spaces = ts_spaces old @ [si_name space]\<rparr>
              space_types))"

text \<open>Lower-casing, on the ASCII letters.\<close>

definition char_lower :: "char \<Rightarrow> char" where
  "char_lower c =
     (let n = (of_char c :: nat) in if 65 \<le> n \<and> n \<le> 90 then char_of (n + 32) else c)"

definition lower :: "string \<Rightarrow> string" where
  "lower s = map char_lower s"

definition circulation_keywords :: "string list" where
  "circulation_keywords =
     [''corridor'', ''hallway'', ''lobby'', ''stair'', ''elevator'', ''circulation'']"

text \<open>
  \<^verbatim>\<open>any(keyword in name.lower() or keyword in type.lower() for keyword in ...)\<close>.  The
  name and the type of a \<open>space_info\<close> are strings, so \<^verbatim>\<open>or ""\<close> leaves them as they are.
\<close>

definition is_circulation :: "space_info \<Rightarrow> bool" where
  "is_circulation space =
     list_ex (\<lambda>keyword. str_contains (lower (si_name space)) keyword
                       \<or> str_contains (lower (si_type space)) keyword)
       circulation_keywords"

fun classify ::
  "space_info list \<Rightarrow> space_info list \<times> space_info list \<Rightarrow> space_info list \<times> space_info list" where
  "classify [] st = st"
| "classify (space # rest) (circulation_spaces, program_spaces) =
     (if is_circulation space
      then classify rest (circulation_spaces @ [space], program_spaces)
      else classify rest (circulation_spaces, program_spaces @ [space]))"

definition area_sum :: "space_info list \<Rightarrow> real" where
  "area_sum ss = sum_list (map si_area ss)"

record category_stats =
  cs_count :: nat
  cs_area :: real
  cs_percentage :: real

record summary =
  total_spaces :: nat
  total_zones :: nat
  total_storeys :: nat
  assigned_elements :: nat
  unassigned_count :: nat
  total_area :: real
  total_volume :: real
  average_height :: real
  space_types :: "(string \<times> type_stats) list"
  circulation :: category_stats
  program :: category_stats

record analysis_result =
  spaces :: "space_info list"
  element_space_map_of :: element_space_map
  zones :: "zone_info list"
  unassigned_elements :: "element_info list"
  summary_of :: summary

text \<open>\<^verbatim>\<open>sum(heights) / len(space_data) if space_data else 0\<close>.\<close>

definition avg_height :: "space_info list \<Rightarrow> py_error + real" where
  "avg_height space_data =
     (if space_data \<noteq> []
      then py_truediv (sum_list (map si_height space_data)) (real (length space_data))
      else Inr 0)"

text \<open>\<^verbatim>\<open>round(part / total_area * 100, 1) if total_area > 0 else 0\<close>.\<close>

definition percentage :: "real \<Rightarrow> real \<Rightarrow> py_error + real" where
  "percentage part whole =
     (if 0 < whole
      then (case py_truediv part whole of Inl e \<Rightarrow> Inl e | Inr q \<Rightarrow> Inr (py_round (q * 100) 1))
      else Inr 0)"

text \<open>
  The body of the \<^verbatim>\<open>try\<close> block.  An exception anywhere in it leaves the block; the
  only operations of the block that can raise on this model are the divisions.
\<close>

definition analysis_body :: "ifc_model \<Rightarrow> py_error + analysis_result" where
  "analysis_body model =
     (let (space_data, esm) = process_spaces model (IfcSpace model) ([], []);
          zone_data = map (process_zone model) (IfcZone model);
          unassigned = find_unassigned model esm (IfcElement model) [];
          sum_area = area_sum space_data;
          sum_volume = sum_list (map si_volume space_data)
      in case avg_height space_data of
           Inl e \<Rightarrow> Inl e
         | Inr avg \<Rightarrow>
             (let types = group_by_type space_data [];
                  (circulation_spaces, program_spaces) = classify space_data ([], []);
                  circulation_area = area_sum circulation_spaces;
                  program_area = area_sum program_spaces
              in case percentage circulation_area sum_area of
                   Inl e \<Rightarrow> Inl e
                 | Inr cp \<Rightarrow>
                     (case percentage program_area sum_area of
                        Inl e \<Rightarrow> Inl e
                      | Inr pp \<Rightarrow>
                          Inr \<lparr>spaces = space_data,
                               element_space_map_of = esm,
                               zones = zone_data,
                               unassigned_elements = unassigned,
                               summary_of =
                                 \<lparr>total_spaces = length (IfcSpace model),
                                  total_zones = length (IfcZone model),
                                  total_storeys = length (IfcBuildingStorey model),
                                  assigned_elements = length esm,
                                  unassigned_count = length unassigned,
                                  total_area = py_round sum_area 2,
                                  total_volume = py_round sum_volume 2,
                                  average_height = py_round avg 2,
                                  space_types = types,
                                  circulation =
                                    \<lparr>cs_count = length circulation_spaces,
                                     cs_area = py_round circulation_area 2,
                                     cs_percentage = cp\<rparr>,
                                  program =
                                    \<lparr>cs_count = length program_spaces,
                                     cs_area = py_round program_area 2,
                                     cs_percentage = pp\<rparr>\<rparr>\<rparr>)))"

text \<open>
  The script: the \<^verbatim>\<open>except\<close> clause replaces the result by a dictionary with the keys
  \<^verbatim>\<open>error\<close> and \<^verbatim>\<open>message\<close>.
\<close>

datatype analysis_output = Failed py_error string | Analysed analysis_result

definition space_analysis :: "ifc_model \<Rightarrow> analysis_output" where
  "space_analysis model =
     (case analysis_body model of
        Inl e \<Rightarrow>
          Failed e ''Space analysis failed. Check that the IFC file contains space definitions.''
      | Inr r \<Rightarrow> Analysed r)"

section \<open>The analysis \<^verbatim>\<open>add-room-info-example.py\<close> runs when it gets no table\<close>

text \<open>
  Lines 33 to 56.  The dictionary written for an element has the keys \<^verbatim>\<open>spaceName\<close>,
  \<^verbatim>\<open>spaceType\<close>, \<^verbatim>\<open>spaceId\<close> and \<^verbatim>\<open>storey\<close>.
\<close>

definition own_assignment_of :: "ifc_model \<Rightarrow> entity \<Rightarrow> pyval" where
  "own_assignment_of model space =
     PDict [(''spaceName'', PStr (space_name_of space)),
            (''spaceType'', PStr (space_type_of space)),
            (''spaceId'', PStr (GlobalId space)),
            (''storey'', case storey_of (IfcRelAggregates model) space of
                           None \<Rightarrow> PNone | Some n \<Rightarrow> PStr n)]"

fun own_elements :: "entity list \<Rightarrow> pyval \<Rightarrow> (string \<times> pyval) list \<Rightarrow> (string \<times> pyval) list" where
  "own_elements [] a sa = sa"
| "own_elements (element # rest) a sa = own_elements rest a (dict_set (GlobalId element) a sa)"

fun own_rels ::
  "rel_contained list \<Rightarrow> entity \<Rightarrow> pyval \<Rightarrow> (string \<times> pyval) list \<Rightarrow> (string \<times> pyval) list" where
  "own_rels [] space a sa = sa"
| "own_rels (rel # rels) space a sa =
     (if RelatingStructure rel = space
      then own_rels rels space a (own_elements (RelatedElements rel) a sa)
      else own_rels rels space a sa)"

fun own_spaces :: "ifc_model \<Rightarrow> entity list \<Rightarrow> (string \<times> pyval) list \<Rightarrow> (string \<times> pyval) list" where
  "own_spaces model [] sa = sa"
| "own_spaces model (space # rest) sa =
     own_spaces model rest
       (own_rels (IfcRelContainedInSpatialStructure model) space (own_assignment_of model space) sa)"

text \<open>
  Lines 28 to 56: the table the rest of the script works on.  \<^verbatim>\<open>not space_assignments\<close>
  holds for \<^verbatim>\<open>None\<close> and for every other falsy value, an empty table among them.
\<close>

definition effective_assignments :: "ifc_model \<Rightarrow> pyval \<Rightarrow> pyval" where
  "effective_assignments model input_data =
     (let sa = space_assignments input_data
      in if \<not> truthy sa then PDict (own_spaces model (IfcSpace model) []) else sa)"

section \<open>Vocabulary for the statements\<close>

text \<open>
  An entry of the table that \<^verbatim>\<open>room-assignment-transform.py\<close> puts into the output: its
  key is a wall's GlobalId and its space name passes the validity test.
\<close>

definition included_entry :: "string list \<Rightarrow> string \<times> pyval \<Rightarrow> bool" where
  "included_entry ws e = (fst e \<in> set ws \<and> valid_space_name (entry_space_name (snd e)))"

text \<open>A wall entry that is left out because its space name fails the validity test.\<close>

definition invalid_wall_entry :: "string list \<Rightarrow> string \<times> pyval \<Rightarrow> bool" where
  "invalid_wall_entry ws e = (fst e \<in> set ws \<and> \<not> valid_space_name (entry_space_name (snd e)))"

text \<open>The same for \<^verbatim>\<open>room-assignment-to-walls.py\<close>, where the type comes from the lookup.\<close>

definition resolved_type :: "element_lookup \<Rightarrow> string \<times> pyval \<Rightarrow> string option" where
  "resolved_type element_lookup e = map_option snd (map_of element_lookup (fst e))"


definition lookup_included :: "element_lookup \<Rightarrow> string \<times> pyval \<Rightarrow> bool" where
  "lookup_included element_lookup e =
     (resolved_type element_lookup e = Some ''IfcWall''
      \<and> valid_space_name (entry_space_name (snd e)))"

definition lookup_other :: "element_lookup \<Rightarrow> string \<times> pyval \<Rightarrow> bool" where
  "lookup_other element_lookup e =
     (case resolved_type element_lookup e of None \<Rightarrow> False | Some t \<Rightarrow> t \<noteq> ''IfcWall'')"

text \<open>Metadata and mappings of a run that may have raised.\<close>

definition metadata_of :: "py_error + pyval \<Rightarrow> string \<Rightarrow> pyval option" where
  "metadata_of out key = (case out of Inl e \<Rightarrow> None | Inr r \<Rightarrow> result_metadata r key)"

definition mappings_of :: "py_error + pyval \<Rightarrow> (string \<times> pyval) list" where
  "mappings_of out = (case out of Inl e \<Rightarrow> [] | Inr r \<Rightarrow> result_mappings r)"


text \<open>An element is contained somewhere when any containment relationship relates it.\<close>

definition contained_anywhere :: "ifc_model \<Rightarrow> entity \<Rightarrow> bool" where
  "contained_anywhere model element =
     list_ex (\<lambda>rel. element \<in> set (RelatedElements rel)) (IfcRelContainedInSpatialStructure model)"

text \<open>The two tests of the storey loop on one relationship.\<close>

definition storey_match :: "rel_aggregates \<Rightarrow> entity \<Rightarrow> bool" where
  "storey_match rel space =
     (space \<in> set (RelatedObjects rel) \<and> ifc_class (RelatingObject rel) = ''IfcBuildingStorey'')"

text \<open>
  The classification rule in the words of the specification: the lower-cased name or
  the lower-cased type has one of the keywords as a contiguous part.
\<close>

definition has_part :: "string \<Rightarrow> string \<Rightarrow> bool" where
  "has_part s k = (\<exists>p q. s = p @ k @ q)"

definition circulation_spec :: "space_info \<Rightarrow> bool" where
  "circulation_spec space =
     ((\<exists>k \<in> set circulation_keywords. has_part (lower (si_name space)) k)
      \<or> (\<exists>k \<in> set circulation_keywords. has_part (lower (si_type space)) k))"

text \<open>The space records and the assignment table the analysis builds (lines 30 to 93).\<close>

definition built :: "ifc_model \<Rightarrow> space_info list \<times> element_space_map" where
  "built model = process_spaces model (IfcSpace model) ([], [])"

section \<open>A small building\<close>

text \<open>
  One storey in one building, two spaces, a wall that two containment relationships
  put into both spaces, a door contained in the storey directly and a column that no
  relationship contains.  The second space has an empty name and an empty object type.
\<close>

definition ex_building :: entity where
  "ex_building =
     \<lparr>step_id = 1, GlobalId = ''0BuildingB1'', ifc_class = ''IfcBuilding'',
      Name = Some ''B1'', ObjectType = None, Description = None\<rparr>"

definition ex_storey :: entity where
  "ex_storey =
     \<lparr>step_id = 2, GlobalId = ''1StoreyL1'', ifc_class = ''IfcBuildingStorey'',
      Name = Some ''L1'', ObjectType = None, Description = None\<rparr>"

definition ex_corridor :: entity where
  "ex_corridor =
     \<lparr>step_id = 3, GlobalId = ''2SpaceCorridor'', ifc_class = ''IfcSpace'',
      Name = Some ''Main Corridor'', ObjectType = None, Description = None\<rparr>"

definition ex_unnamed :: entity where
  "ex_unnamed =
     \<lparr>step_id = 4, GlobalId = ''3SpaceUnnamed01'', ifc_class = ''IfcSpace'',
      Name = Some '''', ObjectType = Some '''', Description = None\<rparr>"

definition ex_wall :: entity where
  "ex_wall =
     \<lparr>step_id = 5, GlobalId = ''4WallW1'', ifc_class = ''IfcWall'',
      Name = Some ''W1'', ObjectType = None, Description = None\<rparr>"

definition ex_door :: entity where
  "ex_door =
     \<lparr>step_id = 6, GlobalId = ''5DoorD1'', ifc_class = ''IfcDoor'',
      Name = None, ObjectType = None, Description = None\<rparr>"

definition ex_column :: entity where
  "ex_column =
     \<lparr>step_id = 7, GlobalId = ''6ColumnC1'', ifc_class = ''IfcColumn'',
      Name = Some ''C1'', ObjectType = None, Description = None\<rparr>"

definition ex_aggregates :: "rel_aggregates list" where
  "ex_aggregates =
     [\<lparr>RelatingObject = ex_building, RelatedObjects = [ex_storey, ex_corridor]\<rparr>,
      \<lparr>RelatingObject = ex_storey, RelatedObjects = [ex_corridor, ex_unnamed]\<rparr>]"

definition ex_in_corridor :: rel_contained where
  "ex_in_corridor = \<lparr>RelatingStructure = ex_corridor, RelatedElements = [ex_wall]\<rparr>"

definition ex_in_unnamed :: rel_contained where
  "ex_in_unnamed = \<lparr>RelatingStructure = ex_unnamed, RelatedElements = [ex_wall]\<rparr>"

definition ex_in_storey :: rel_contained where
  "ex_in_storey = \<lparr>RelatingStructure = ex_storey, RelatedElements = [ex_door]\<rparr>"

definition ex_model :: ifc_model where
  "ex_model =
     \<lparr>IfcSpace = [ex_corridor, ex_unnamed],
      IfcZone = [],
      IfcBuildingStorey = [ex_storey],
      IfcRelAggregates = ex_aggregates,
      IfcRelContainedInSpatialStructure = [ex_in_corridor, ex_in_unnamed, ex_in_storey],
      IfcRelAssignsToGroup = [],
      IfcElement = [ex_wall, ex_door, ex_column],
      get_psets = (\<lambda>e. None)\<rparr>"

text \<open>The same building without its spaces.\<close>

definition ex_no_spaces :: ifc_model where
  "ex_no_spaces =
     \<lparr>IfcSpace = [],
      IfcZone = [],
      IfcBuildingStorey = [ex_storey],
      IfcRelAggregates = [],
      IfcRelContainedInSpatialStructure = [ex_in_storey],
      IfcRelAssignsToGroup = [],
      IfcElement = [ex_door, ex_column],
      get_psets = (\<lambda>e. None)\<rparr>"

text \<open>The two space records of the specification's percentage scenario.\<close>

definition ex_corridor_info :: space_info where
  "ex_corridor_info =
     \<lparr>si_id = ''2SpaceCorridor'', si_name = ''Main Corridor'', si_type = ''Generic'',
      si_description = '''', si_storey = Some ''L1'', si_elements = [],
      si_area = 30, si_volume = 0, si_height = 0, si_element_count = 0\<rparr>"

definition ex_office_info :: space_info where
  "ex_office_info =
     \<lparr>si_id = ''7SpaceOffice1'', si_name = ''Office 1'', si_type = ''Generic'',
      si_description = '''', si_storey = Some ''L1'', si_elements = [],
      si_area = 70, si_volume = 0, si_height = 0, si_element_count = 0\<rparr>"

section \<open>A small assignment table\<close>






section \<open>Properties\<close>

subsection \<open>Dictionaries\<close>

lemma set_dict_set: "set (dict_set k v d) \<subseteq> insert (k, v) (set d)"
  unfolding dict_set_def by (induction d) auto

lemma snd_set_dict_set: "snd ` set (dict_set k v d) \<subseteq> insert v (snd ` set d)"
  using set_dict_set [of k v d] by force

lemma dict_set_fresh: "k \<notin> fst ` set d \<Longrightarrow> dict_set k v d = d @ [(k, v)]"
  unfolding dict_set_def by (induction d) auto

lemma keys_dict_set: "set (dict_keys (dict_set k v d)) = insert k (set (dict_keys d))"
  unfolding dict_set_def dict_keys_def by (induction d) auto




subsection \<open>The loops of the two transformers\<close>

lemma transform_loop_counts:
  assumes "\<forall>e \<in> set esm. fst e \<in> set ws \<longrightarrow> is_dict (snd e)"
  shows "\<exists>wm'. transform_loop ws esm (wm, nf, sk) =
           Inr (wm', nf + int (length (filter (included_entry ws) esm)),
                sk + int (length [e \<leftarrow> esm. fst e \<notin> set ws]))
         \<and> snd ` set wm' \<subseteq> snd ` set wm \<union> (entry_space_name \<circ> snd) ` set (filter (included_entry ws) esm)"
  using assms
proof (induction esm arbitrary: wm nf sk)
  case Nil
  then show ?case by simp
next
  case (Cons e esm)
  obtain k v where e: "e = (k, v)" by (cases e)
  from Cons.prems have rest: "\<forall>e \<in> set esm. fst e \<in> set ws \<longrightarrow> is_dict (snd e)" by simp
  show ?case
  proof (cases "k \<in> set ws")
    case False
    from Cons.IH [OF rest, of wm nf "sk + 1"] False e show ?thesis
      by (auto simp: included_entry_def)
  next
    case True
    with Cons.prems e obtain si where v: "v = PDict si" by (cases v) auto
    let ?n = "dict_get si ''spaceName'' (PStr '''')"
    have n: "entry_space_name v = ?n" by (simp add: v entry_space_name_def)
    show ?thesis
    proof (cases "valid_space_name ?n")
      case False
      with Cons.IH [OF rest, of wm nf sk] True e v n show ?thesis
        by (auto simp: included_entry_def)
    next
      case valid: True
      from Cons.IH [OF rest, of "dict_set k ?n wm" "nf + 1" sk]
      obtain wm' where
        run: "transform_loop ws esm (dict_set k ?n wm, nf + 1, sk) =
           Inr (wm', nf + 1 + int (length (filter (included_entry ws) esm)),
                sk + int (length [e \<leftarrow> esm. fst e \<notin> set ws]))"
        and vals: "snd ` set wm' \<subseteq> snd ` set (dict_set k ?n wm) \<union>
           (entry_space_name \<circ> snd) ` set (filter (included_entry ws) esm)"
        by blast
      have cw: "included_entry ws e" using True valid e n by (simp add: included_entry_def)
      have "transform_loop ws (e # esm) (wm, nf, sk) =
           Inr (wm', nf + int (length (filter (included_entry ws) (e # esm))),
                sk + int (length [e \<leftarrow> (e # esm). fst e \<notin> set ws]))"
        using run True valid cw by (simp add: e v)
      moreover have "snd ` set wm' \<subseteq> snd ` set wm \<union>
           (entry_space_name \<circ> snd) ` set (filter (included_entry ws) (e # esm))"
        using vals snd_set_dict_set [of k ?n wm] cw n e by auto
      ultimately show ?thesis by blast
    qed
  qed
qed

lemma transform_loop_mappings:
  assumes "distinct (map fst esm)" and "fst ` set esm \<inter> fst ` set wm = {}"
    and "transform_loop ws esm (wm, nf, sk) = Inr (wm', nf', sk')"
  shows "wm' = wm @ map (\<lambda>e. (fst e, entry_space_name (snd e))) (filter (included_entry ws) esm)"
  using assms
proof (induction esm arbitrary: wm nf sk)
  case Nil
  then show ?case by simp
next
  case (Cons e esm)
  obtain k v where e: "e = (k, v)" by (cases e)
  from Cons.prems have d: "distinct (map fst esm)" and fresh: "k \<notin> fst ` set wm"
    and disj: "fst ` set esm \<inter> fst ` set wm = {}" and knew: "k \<notin> fst ` set esm"
    using e by auto
  show ?case
  proof (cases "included_entry ws e")
    case False
    then have "transform_loop ws (e # esm) (wm, nf, sk) = Inl AttributeError
        \<or> (\<exists>sk2. transform_loop ws (e # esm) (wm, nf, sk) = transform_loop ws esm (wm, nf, sk2))"
      by (cases v) (auto simp: e included_entry_def entry_space_name_def Let_def)
    with Cons.prems(3) obtain sk2 where "transform_loop ws esm (wm, nf, sk2) = Inr (wm', nf', sk')"
      by auto
    from Cons.IH [OF d disj this] False show ?thesis by simp
  next
    case True
    then obtain si where v: "v = PDict si"
      by (cases v) (auto simp: e included_entry_def entry_space_name_def valid_space_name_def)
    let ?n = "dict_get si ''spaceName'' (PStr '''')"
    have n: "entry_space_name v = ?n" by (simp add: v entry_space_name_def)
    have ds: "dict_set k ?n wm = wm @ [(k, ?n)]" using fresh by (rule dict_set_fresh)
    have step: "transform_loop ws (e # esm) (wm, nf, sk) = transform_loop ws esm (wm @ [(k, ?n)], nf + 1, sk)"
      using True n by (simp add: e v included_entry_def ds)
    have disj2: "fst ` set esm \<inter> fst ` set (wm @ [(k, ?n)]) = {}"
      using disj knew by auto
    from Cons.IH [OF d disj2] step Cons.prems(3)
    have "wm' = (wm @ [(k, ?n)]) @ map (\<lambda>e. (fst e, entry_space_name (snd e))) (filter (included_entry ws) esm)"
      by simp
    then show ?thesis using True e n by simp
  qed
qed

lemma to_walls_loop_counts:
  assumes "\<forall>e \<in> set esm. resolved_type lk e = Some ''IfcWall'' \<longrightarrow> is_dict (snd e)"
  shows "\<exists>wm'. to_walls_loop lk esm (wm, nf, sk) =
           Inr (wm', nf + int (length (filter (lookup_included lk) esm)),
                sk + int (length (filter (lookup_other lk) esm)))
         \<and> snd ` set wm' \<subseteq> snd ` set wm \<union> (entry_space_name \<circ> snd) ` set (filter (lookup_included lk) esm)"
  using assms
proof (induction esm arbitrary: wm nf sk)
  case Nil
  then show ?case by simp
next
  case (Cons e esm)
  obtain k v where e: "e = (k, v)" by (cases e)
  from Cons.prems have rest: "\<forall>e \<in> set esm. resolved_type lk e = Some ''IfcWall'' \<longrightarrow> is_dict (snd e)"
    by simp
  show ?case
  proof (cases "map_of lk k")
    case None
    with Cons.IH [OF rest, of wm nf sk] e show ?thesis
      by (auto simp: lookup_included_def lookup_other_def resolved_type_def)
  next
    case (Some gt)
    obtain g t where gt: "gt = (g, t)" by (cases gt)
    show ?thesis
    proof (cases "t = ''IfcWall''")
      case False
      with Cons.IH [OF rest, of wm nf "sk + 1"] e Some gt show ?thesis
        by (auto simp: lookup_included_def lookup_other_def resolved_type_def)
    next
      case True
      with Cons.prems e Some gt obtain si where v: "v = PDict si"
        by (cases v) (auto simp: resolved_type_def)
      let ?n = "dict_get si ''spaceName'' (PStr '''')"
      have n: "entry_space_name v = ?n" by (simp add: v entry_space_name_def)
      show ?thesis
      proof (cases "valid_space_name ?n")
        case False
        with Cons.IH [OF rest, of wm nf sk] True e v n Some gt show ?thesis
          by (auto simp: lookup_included_def lookup_other_def resolved_type_def)
      next
        case valid: True
        from Cons.IH [OF rest, of "dict_set g ?n wm" "nf + 1" sk]
        obtain wm' where
          run: "to_walls_loop lk esm (dict_set g ?n wm, nf + 1, sk) =
             Inr (wm', nf + 1 + int (length (filter (lookup_included lk) esm)),
                  sk + int (length (filter (lookup_other lk) esm)))"
          and vals: "snd ` set wm' \<subseteq> snd ` set (dict_set g ?n wm) \<union>
             (entry_space_name \<circ> snd) ` set (filter (lookup_included lk) esm)"
          by blast
        have cw: "lookup_included lk e" and no: "\<not> lookup_other lk e"
          using True valid e n Some gt
          by (simp_all add: lookup_included_def lookup_other_def resolved_type_def)
        have "to_walls_loop lk (e # esm) (wm, nf, sk) =
             Inr (wm', nf + int (length (filter (lookup_included lk) (e # esm))),
                  sk + int (length (filter (lookup_other lk) (e # esm))))"
          using run True valid cw no Some gt by (simp add: e v)
        moreover have "snd ` set wm' \<subseteq> snd ` set wm \<union>
             (entry_space_name \<circ> snd) ` set (filter (lookup_included lk) (e # esm))"
          using vals snd_set_dict_set [of g ?n wm] cw n e by auto
        ultimately show ?thesis by blast
      qed
    qed
  qed
qed



lemma marker_found:
  assumes "map_of d ''elementSpaceMap'' = Some m"
  shows "d \<noteq> []" and "''elementSpaceMap'' \<in> set (dict_keys d)"
    and "dict_get d ''elementSpaceMap'' dflt = m"
  using assms by (auto simp: dict_keys_def dict_get_def dest: map_of_SomeD intro: rev_image_eqI)

lemma transform_on_table:
  assumes "map_of d ''elementSpaceMap'' = Some (PDict esm)"
  shows "transform (PDict d) ws =
           (case transform_loop ws esm ([], 0, 0) of
              Inl e \<Rightarrow> Inl e | Inr st \<Rightarrow> Inr (transform_result st))"
  using marker_found [OF assms] by (simp add: transform_def)

lemma to_walls_on_table:
  assumes "map_of d ''elementSpaceMap'' = Some (PDict esm)"
  shows "to_walls (Some (PDict d)) els =
           (case to_walls_loop (build_element_lookup els []) esm ([], 0, 0) of
              Inl e \<Rightarrow> Inl e | Inr st \<Rightarrow> Inr (transform_result st))"
  using marker_found [OF assms] assms by (simp add: to_walls_def)

lemma result_of_state:
  "result_mappings (transform_result (wm, nf, sk)) = wm"
  "result_metadata (transform_result (wm, nf, sk)) ''wallsFound'' = Some (PInt nf)"
  "result_metadata (transform_result (wm, nf, sk)) ''otherElementsSkipped'' = Some (PInt sk)"
  "result_metadata (transform_result (wm, nf, sk)) ''totalMappings'' = Some (PInt (int (length wm)))"
  by (simp_all add: transform_result_def result_mappings_def result_metadata_def)

subsection \<open>Round trip of the mapping transformer\<close>








subsection \<open>Input that is not assignment data\<close>

lemma transform_not_applicable:
  assumes "\<forall>d. input_data = PDict d \<longrightarrow> ''elementSpaceMap'' \<notin> set (dict_keys d)"
  shows "transform input_data ws = Inr no_assignment_data"
  using assms by (cases input_data) (simp_all add: transform_def)

lemma to_walls_pass_through:
  assumes "''elementSpaceMap'' \<notin> set (dict_keys d)"
  shows "to_walls (Some (PDict d)) els = Inr (PDict d)"
  using assms by (simp add: to_walls_def)

text \<open>
  Without an \<^verbatim>\<open>input\<close> the second script works on the empty dictionary; on an input
  that is not a container its unguarded membership test raises.
\<close>

lemma to_walls_no_input: "to_walls None els = Inr (PDict [])"
  by (simp add: to_walls_def dict_keys_def)

lemma to_walls_raises_on_None: "to_walls (Some PNone) els = Inl TypeError"
  by (simp add: to_walls_def)

text \<open>
  Claim C2, as the code has it.  When the input is not a dictionary with the key
  \<^verbatim>\<open>elementSpaceMap\<close>, \<^verbatim>\<open>room-assignment-transform.py\<close> raises nothing and returns a new
  record: empty \<^verbatim>\<open>mappings\<close> and a \<^verbatim>\<open>metadata\<close> whose \<^verbatim>\<open>error\<close> is set; it does not
  return the input.  \<^verbatim>\<open>room-assignment-to-walls.py\<close> returns a dictionary input without
  the key as it is, and adds no metadata.
\<close>

theorem unrecognised_input:
  assumes "\<forall>d. input_data = PDict d \<longrightarrow> ''elementSpaceMap'' \<notin> set (dict_keys d)"
  shows "transform input_data ws = Inr no_assignment_data
       \<and> result_mappings no_assignment_data = []
       \<and> result_metadata no_assignment_data ''error'' = Some (PStr ''No room assignment data found'')
       \<and> (is_dict input_data \<longrightarrow> to_walls (Some input_data) els = Inr input_data)"
proof -
  have "is_dict input_data \<longrightarrow> to_walls (Some input_data) els = Inr input_data"
    using assms by (cases input_data) (simp_all add: to_walls_pass_through)
  then show ?thesis
    using transform_not_applicable [OF assms]
    by (simp add: no_assignment_data_def result_mappings_def result_metadata_def)
qed

theorem unrecognised_input_witness:
  "transform (PDict [(''spaces'', PList [])]) [''W1''] = Inr no_assignment_data
   \<and> result_mappings no_assignment_data = []
   \<and> result_metadata no_assignment_data ''error'' = Some (PStr ''No room assignment data found'')
   \<and> to_walls (Some (PDict [(''spaces'', PList [])])) [] = Inr (PDict [(''spaces'', PList [])])"
  using unrecognised_input [of "PDict [(''spaces'', PList [])]" "[''W1'']" "[]"]
  by (simp add: dict_keys_def)

text \<open>
  The claim as stated fails on the input \<^verbatim>\<open>{"spaces": []}\<close>: the first script does not
  return it, and the second script returns it with no \<^verbatim>\<open>metadata.error\<close>.
\<close>

theorem unrecognised_input_counterexample:
  "transform (PDict [(''spaces'', PList [])]) [] \<noteq> Inr (PDict [(''spaces'', PList [])])
   \<and> metadata_of (to_walls (Some (PDict [(''spaces'', PList [])])) []) ''error'' = None"
  by (simp add: transform_def no_assignment_data_def dict_keys_def to_walls_def metadata_of_def
      result_metadata_def)

subsection \<open>What the two counters count\<close>

lemma three_way_split:
  "length (filter (included_entry ws) esm) + length [e \<leftarrow> esm. fst e \<notin> set ws]
     + length (filter (invalid_wall_entry ws) esm) = length esm"
  by (induction esm) (auto simp: included_entry_def invalid_wall_entry_def)

text \<open>
  Claim C3, as the code has it.  On a table with distinct keys whose wall entries are
  dictionaries, \<^verbatim>\<open>room-assignment-transform.py\<close> returns a result; \<^verbatim>\<open>mappings\<close> holds
  exactly the included entries, in order, and \<^verbatim>\<open>wallsFound\<close> is their number;
  \<^verbatim>\<open>otherElementsSkipped\<close> is the number of entries whose key is not a wall's GlobalId.
  A wall entry with an invalid space name is counted by neither, so the two counters
  and the number of such entries add up to the number of entries.
\<close>

theorem transform_counters:
  assumes marker: "map_of d ''elementSpaceMap'' = Some (PDict esm)"
    and dicts: "\<forall>e \<in> set esm. fst e \<in> set ws \<longrightarrow> is_dict (snd e)"
    and keys: "distinct (map fst esm)"
  shows "\<exists>r. transform (PDict d) ws = Inr r
       \<and> result_mappings r =
           map (\<lambda>e. (fst e, entry_space_name (snd e))) (filter (included_entry ws) esm)
       \<and> result_metadata r ''wallsFound'' =
           Some (PInt (int (length (filter (included_entry ws) esm))))
       \<and> result_metadata r ''otherElementsSkipped'' =
           Some (PInt (int (length [e \<leftarrow> esm. fst e \<notin> set ws])))
       \<and> length (filter (included_entry ws) esm) + length [e \<leftarrow> esm. fst e \<notin> set ws]
           + length (filter (invalid_wall_entry ws) esm) = length esm"
proof -
  from transform_loop_counts [OF dicts, of "[]" 0 0]
  obtain wm' where
    run: "transform_loop ws esm ([], 0, 0) =
            Inr (wm', int (length (filter (included_entry ws) esm)),
                 int (length [e \<leftarrow> esm. fst e \<notin> set ws]))"
    by auto
  have wm': "wm' = map (\<lambda>e. (fst e, entry_space_name (snd e))) (filter (included_entry ws) esm)"
    using transform_loop_mappings [OF keys _ run] by simp
  have "transform (PDict d) ws =
          Inr (transform_result (wm', int (length (filter (included_entry ws) esm)),
                 int (length [e \<leftarrow> esm. fst e \<notin> set ws])))"
    by (simp add: transform_on_table [OF marker] run)
  then show ?thesis
    using wm' three_way_split [of ws esm] by (simp add: result_of_state)
qed

theorem transform_counters_witness:
  "\<exists>r. transform
          (PDict [(''elementSpaceMap'',
             PDict [(''W1'', PDict [(''spaceName'', PStr ''Room A'')]),
                    (''D1'', PDict [(''spaceName'', PStr ''Room A'')]),
                    (''W2'', PDict [(''spaceName'', PStr ''None'')])])])
          [''W1'', ''W2''] = Inr r
       \<and> result_mappings r = [(''W1'', PStr ''Room A'')]
       \<and> result_metadata r ''wallsFound'' = Some (PInt 1)
       \<and> result_metadata r ''otherElementsSkipped'' = Some (PInt 1)"
  using transform_counters
    [of "[(''elementSpaceMap'',
             PDict [(''W1'', PDict [(''spaceName'', PStr ''Room A'')]),
                    (''D1'', PDict [(''spaceName'', PStr ''Room A'')]),
                    (''W2'', PDict [(''spaceName'', PStr ''None'')])])]"
        "[(''W1'', PDict [(''spaceName'', PStr ''Room A'')]),
          (''D1'', PDict [(''spaceName'', PStr ''Room A'')]),
          (''W2'', PDict [(''spaceName'', PStr ''None'')])]"
        "[''W1'', ''W2'']"]
  by (simp add: included_entry_def invalid_wall_entry_def entry_space_name_def dict_get_def
      valid_space_name_def)

text \<open>
  The claim as stated fails on a table with one wall entry whose space name is empty:
  the entry is left out for its invalid value, and both counters stay at \<open>0\<close>, so
  that they do not add up to the one entry of the table.
\<close>

theorem transform_counters_counterexample:
  "mappings_of
     (transform (PDict [(''elementSpaceMap'', PDict [(''W1'', PDict [(''spaceName'', PStr '''')])])])
        [''W1'']) = []
   \<and> \<not> included_entry [''W1''] (''W1'', PDict [(''spaceName'', PStr '''')])
   \<and> metadata_of
     (transform (PDict [(''elementSpaceMap'', PDict [(''W1'', PDict [(''spaceName'', PStr '''')])])])
        [''W1'']) ''wallsFound'' = Some (PInt 0)
   \<and> metadata_of
     (transform (PDict [(''elementSpaceMap'', PDict [(''W1'', PDict [(''spaceName'', PStr '''')])])])
        [''W1'']) ''otherElementsSkipped'' = Some (PInt 0)"
  by (simp add: transform_def dict_keys_def dict_get_def valid_space_name_def metadata_of_def
      mappings_of_def transform_result_def result_metadata_def result_mappings_def
      included_entry_def entry_space_name_def)

text \<open>
  \<^verbatim>\<open>room-assignment-to-walls.py\<close> has the same two counters; there an entry whose id is
  not in the lookup is counted by neither as well.
\<close>

lemma to_walls_four_way_split:
  "length (filter (lookup_included lk) esm) + length (filter (lookup_other lk) esm)
     + length [e \<leftarrow> esm. resolved_type lk e = Some ''IfcWall''
                           \<and> \<not> valid_space_name (entry_space_name (snd e))]
     + length [e \<leftarrow> esm. resolved_type lk e = None] = length esm"
  by (induction esm) (auto simp: lookup_included_def lookup_other_def split: option.splits)

lemma to_walls_counters:
  assumes marker: "map_of d ''elementSpaceMap'' = Some (PDict esm)"
    and lk: "lk = build_element_lookup els []"
    and dicts: "\<forall>e \<in> set esm. resolved_type lk e = Some ''IfcWall'' \<longrightarrow> is_dict (snd e)"
  shows "\<exists>r. to_walls (Some (PDict d)) els = Inr r
       \<and> result_metadata r ''wallsFound'' =
           Some (PInt (int (length (filter (lookup_included lk) esm))))
       \<and> result_metadata r ''otherElementsSkipped'' =
           Some (PInt (int (length (filter (lookup_other lk) esm))))"
proof -
  from to_walls_loop_counts [OF dicts, of "[]" 0 0]
  obtain wm' where
    run: "to_walls_loop lk esm ([], 0, 0) =
            Inr (wm', int (length (filter (lookup_included lk) esm)),
                 int (length (filter (lookup_other lk) esm)))"
    by auto
  have "to_walls (Some (PDict d)) els =
          Inr (transform_result (wm', int (length (filter (lookup_included lk) esm)),
                 int (length (filter (lookup_other lk) esm))))"
    using run by (simp add: to_walls_on_table [OF marker] lk)
  then show ?thesis by (simp add: result_of_state)
qed

subsection \<open>The two spellings of the table's key\<close>

lemma key_found:
  assumes "map_of d k = Some m"
  shows "d \<noteq> []" and "k \<in> set (dict_keys d)" and "dict_get d k dflt = m"
  using assms by (auto simp: dict_keys_def dict_get_def dest: map_of_SomeD intro: rev_image_eqI)

text \<open>
  Claim C4, as the code has it.  \<^verbatim>\<open>add-room-info-example.py\<close> reads the same table from
  a record that has it under \<^verbatim>\<open>elementSpaceMap\<close> and from a record that has it under
  \<^verbatim>\<open>element_space_map\<close> only, and goes on with the same table in both cases.  The two
  transformer scripts test for \<^verbatim>\<open>elementSpaceMap\<close> alone: a record with the table under
  \<^verbatim>\<open>element_space_map\<close> only is not assignment data for them.
\<close>

theorem key_spelling:
  assumes camel: "map_of d ''elementSpaceMap'' = Some m"
    and snake: "map_of d' ''element_space_map'' = Some m"
    and only: "''elementSpaceMap'' \<notin> set (dict_keys d')"
  shows "space_assignments (PDict d) = m
       \<and> space_assignments (PDict d') = m
       \<and> effective_assignments model (PDict d) = effective_assignments model (PDict d')
       \<and> transform (PDict d') ws = Inr no_assignment_data
       \<and> to_walls (Some (PDict d')) els = Inr (PDict d')"
proof -
  have a: "space_assignments (PDict d) = m"
    using key_found [OF camel] by (simp add: space_assignments_def)
  have b: "space_assignments (PDict d') = m"
    using key_found [OF snake] only by (simp add: space_assignments_def)
  have c: "transform (PDict d') ws = Inr no_assignment_data"
    using only by (simp add: transform_not_applicable)
  show ?thesis
    using a b c only by (simp add: effective_assignments_def to_walls_pass_through)
qed

theorem key_spelling_witness:
  "space_assignments
     (PDict [(''elementSpaceMap'', PDict [(''W1'', PDict [(''spaceName'', PStr ''Room A'')])])]) =
   space_assignments
     (PDict [(''element_space_map'', PDict [(''W1'', PDict [(''spaceName'', PStr ''Room A'')])])])
   \<and> transform
       (PDict [(''element_space_map'', PDict [(''W1'', PDict [(''spaceName'', PStr ''Room A'')])])])
       [''W1''] = Inr no_assignment_data"
  using key_spelling
    [of "[(''elementSpaceMap'', PDict [(''W1'', PDict [(''spaceName'', PStr ''Room A'')])])]"
        "PDict [(''W1'', PDict [(''spaceName'', PStr ''Room A'')])]"
        "[(''element_space_map'', PDict [(''W1'', PDict [(''spaceName'', PStr ''Room A'')])])]"
        _ "[''W1'']"]
  by (simp add: dict_keys_def)

text \<open>
  The claim as stated fails on the transformer: the same one-wall table gives a mapping
  under one spelling and the not-applicable record under the other.
\<close>

theorem key_spelling_counterexample:
  "transform
     (PDict [(''elementSpaceMap'', PDict [(''W1'', PDict [(''spaceName'', PStr ''Room A'')])])])
     [''W1'']
   \<noteq> transform
     (PDict [(''element_space_map'', PDict [(''W1'', PDict [(''spaceName'', PStr ''Room A'')])])])
     [''W1'']"
  by (simp add: transform_def dict_keys_def dict_get_def valid_space_name_def dict_set_def
      transform_result_def no_assignment_data_def)

subsection \<open>The assignment table built by the analysis\<close>

lemma contain_elements_fst:
  "fst (contain_elements els a (ce, esm)) = ce @ map element_info_of els"
  by (induction els arbitrary: ce esm) auto








lemma process_space_name:
  "si_name (fst (process_space model space esm)) = space_name_of space"
  "si_type (fst (process_space model space esm)) = space_type_of space"
  "si_storey (fst (process_space model space esm)) = storey_of (IfcRelAggregates model) space"
  "si_id (fst (process_space model space esm)) = GlobalId space"
  by (simp_all add: process_space_def Let_def split: prod.splits)

lemma process_spaces_step:
  "process_spaces model (space # rest) (sd, esm) =
     process_spaces model rest
       (sd @ [fst (process_space model space esm)], snd (process_space model space esm))"
  by (simp add: Let_def split: prod.splits)



lemma process_spaces_length:
  "length (fst (process_spaces model sps (sd, esm))) = length sd + length sps"
proof (induction sps arbitrary: sd esm)
  case Nil
  then show ?case by simp
next
  case (Cons space rest)
  show ?case unfolding process_spaces_step Cons.IH by simp
qed

lemma process_spaces_names:
  "map si_name (fst (process_spaces model sps (sd, esm))) = map si_name sd @ map space_name_of sps"
  "map si_type (fst (process_spaces model sps (sd, esm))) = map si_type sd @ map space_type_of sps"
  "map si_storey (fst (process_spaces model sps (sd, esm))) =
     map si_storey sd @ map (storey_of (IfcRelAggregates model)) sps"
proof (induction sps arbitrary: sd esm)
  case Nil
  {
    case 1 show ?case by simp
  next
    case 2 show ?case by simp
  next
    case 3 show ?case by simp
  }
next
  case (Cons space rest)
  {
    case 1 show ?case unfolding process_spaces_step Cons.IH by (simp add: process_space_name)
  next
    case 2 show ?case unfolding process_spaces_step Cons.IH by (simp add: process_space_name)
  next
    case 3 show ?case unfolding process_spaces_step Cons.IH by (simp add: process_space_name)
  }
qed

subsection \<open>The analysis always reaches its result\<close>

lemma avg_height_value:
  "avg_height sd =
     Inr (if sd = [] then 0 else sum_list (map si_height sd) / real (length sd))"
  by (simp add: avg_height_def py_truediv_def)

lemma percentage_value:
  "percentage part whole = Inr (if 0 < whole then py_round (part / whole * 100) 1 else 0)"
  by (simp add: percentage_def py_truediv_def)

lemma analysis_body_value:
  "\<exists>r. analysis_body model = Inr r
     \<and> spaces r = fst (built model)
     \<and> element_space_map_of r = snd (built model)
     \<and> unassigned_elements r = find_unassigned model (snd (built model)) (IfcElement model) []
     \<and> total_area (summary_of r) = py_round (area_sum (fst (built model))) 2
     \<and> average_height (summary_of r) =
         py_round (if fst (built model) = [] then 0
                   else sum_list (map si_height (fst (built model))) / real (length (fst (built model)))) 2
     \<and> cs_percentage (circulation (summary_of r)) =
         (if 0 < area_sum (fst (built model))
          then py_round (area_sum (fst (classify (fst (built model)) ([], [])))
                           / area_sum (fst (built model)) * 100) 1
          else 0)
     \<and> cs_percentage (program (summary_of r)) =
         (if 0 < area_sum (fst (built model))
          then py_round (area_sum (snd (classify (fst (built model)) ([], [])))
                           / area_sum (fst (built model)) * 100) 1
          else 0)"
  by (simp add: analysis_body_def built_def avg_height_value percentage_value Let_def
      split: prod.splits)

lemma space_analysis_value:
  "\<exists>r. space_analysis model = Analysed r \<and> analysis_body model = Inr r"
  using analysis_body_value [of model] by (auto simp: space_analysis_def)

subsection \<open>An element claimed by two spaces\<close>







subsection \<open>Storey resolution\<close>

lemma storey_of_none:
  "\<forall>rel \<in> set rels. \<not> storey_match rel space \<Longrightarrow> storey_of rels space = None"
  by (induction rels) (auto simp: storey_match_def is_a_def)

lemma storey_of_first:
  assumes "\<forall>r \<in> set pre. \<not> storey_match r space" and "storey_match rel space"
  shows "storey_of (pre @ rel # post) space = Name (RelatingObject rel)"
  using assms by (induction pre) (auto simp: storey_match_def is_a_def)

lemma storey_of_skip:
  "ifc_class (RelatingObject rel) \<noteq> ''IfcBuildingStorey''
     \<Longrightarrow> storey_of (rel # rels) space = storey_of rels space"
  by (simp add: is_a_def)

text \<open>
  Claim C6.  The storey of a space is the name of the relating object of the first
  aggregation relationship that relates the space and whose relating object is an
  \<^verbatim>\<open>IfcBuildingStorey\<close>; it is \<^verbatim>\<open>None\<close> when no relationship passes both tests; a
  relationship whose relating object is of another class is passed over, whether or
  not it relates the space.  The analysis stores this value for every space, in the
  order of the enumeration.
\<close>

theorem storey_resolution:
  "((\<forall>r \<in> set pre. \<not> storey_match r space) \<and> storey_match rel space
      \<longrightarrow> storey_of (pre @ rel # post) space = Name (RelatingObject rel))
   \<and> ((\<forall>r \<in> set rels. \<not> storey_match r space) \<longrightarrow> storey_of rels space = None)
   \<and> (ifc_class (RelatingObject rel') \<noteq> ''IfcBuildingStorey''
        \<longrightarrow> storey_of (rel' # rels) space = storey_of rels space)
   \<and> (\<exists>r. space_analysis model = Analysed r
        \<and> map si_storey (spaces r) = map (storey_of (IfcRelAggregates model)) (IfcSpace model))"
proof -
  obtain r where r: "space_analysis model = Analysed r" "analysis_body model = Inr r"
    using space_analysis_value by blast
  with analysis_body_value [of model]
  have "spaces r = fst (process_spaces model (IfcSpace model) ([], []))"
    by (auto simp: built_def)
  then have "map si_storey (spaces r) = map (storey_of (IfcRelAggregates model)) (IfcSpace model)"
    by (simp add: process_spaces_names)
  with r show ?thesis
    using storey_of_first [of pre space rel post] storey_of_none [of rels space]
      storey_of_skip [of rel' rels space]
    by blast
qed

theorem storey_resolution_witness:
  "storey_of ex_aggregates ex_corridor = Some ''L1''
   \<and> storey_of ex_aggregates ex_wall = None
   \<and> (\<exists>r. space_analysis ex_model = Analysed r
        \<and> map si_storey (spaces r) = [Some ''L1'', Some ''L1''])"
proof -
  let ?b = "\<lparr>RelatingObject = ex_building, RelatedObjects = [ex_storey, ex_corridor]\<rparr>"
  let ?s = "\<lparr>RelatingObject = ex_storey, RelatedObjects = [ex_corridor, ex_unnamed]\<rparr>"
  have agg: "ex_aggregates = [?b] @ ?s # []"
    by (simp add: ex_aggregates_def)
  have skip: "\<forall>r \<in> set [?b]. \<not> storey_match r ex_corridor"
    by (simp add: storey_match_def ex_building_def)
  have hit: "storey_match ?s ex_corridor"
    by (simp add: storey_match_def ex_storey_def)
  have miss: "\<forall>r \<in> set ex_aggregates. \<not> storey_match r ex_wall"
    by (simp add: storey_match_def ex_aggregates_def ex_wall_def ex_storey_def ex_corridor_def
        ex_unnamed_def ex_building_def)
  have name: "Name (RelatingObject ?s) = Some ''L1''"
    by (simp add: ex_storey_def)
  have each: "map (storey_of (IfcRelAggregates ex_model)) (IfcSpace ex_model) = [Some ''L1'', Some ''L1'']"
    by (simp add: ex_model_def ex_aggregates_def is_a_def ex_building_def ex_storey_def
        ex_corridor_def ex_unnamed_def)
  note first = storey_resolution [of "[?b]" ex_corridor ?s "[]" ex_aggregates ?b ex_model]
  note other = storey_resolution [of "[]" ex_wall ?s "[]" ex_aggregates ?b ex_model]
  have a: "storey_of ([?b] @ ?s # []) ex_corridor = Name (RelatingObject ?s)"
    using first [THEN conjunct1] skip hit by blast
  have b: "storey_of ex_aggregates ex_wall = None"
    using other [THEN conjunct2, THEN conjunct1] miss by blast
  have c: "\<exists>r. space_analysis ex_model = Analysed r
        \<and> map si_storey (spaces r) = map (storey_of (IfcRelAggregates ex_model)) (IfcSpace ex_model)"
    by (rule first [THEN conjunct2, THEN conjunct2, THEN conjunct2])
  from a have "storey_of ex_aggregates ex_corridor = Some ''L1''"
    unfolding agg [symmetric] name .
  with b c show ?thesis
    unfolding each by blast
qed

subsection \<open>Fallbacks for an empty name or type\<close>

lemma str_or_empty: "str_or (Some []) dflt = dflt" and str_or_None: "str_or None dflt = dflt"
  by (simp_all add: str_or_def)

text \<open>
  Claim C10.  The analysis returns one record per space, in the order of the
  enumeration.  For a space whose \<^verbatim>\<open>Name\<close> is the empty string the record's name is
  \<^verbatim>\<open>Space_\<close> followed by the first 8 characters of the GlobalId, and for a space whose
  \<^verbatim>\<open>ObjectType\<close> is the empty string the record's type is \<^verbatim>\<open>Generic\<close>, as for an
  attribute that is not set.  The table \<^verbatim>\<open>add-room-info-example.py\<close> builds for itself
  carries the same name and type.
\<close>

theorem falsy_fallbacks:
  "\<exists>r. space_analysis model = Analysed r
     \<and> length (spaces r) = length (IfcSpace model)
     \<and> (\<forall>i < length (IfcSpace model).
          (Name (IfcSpace model ! i) = Some [] \<or> Name (IfcSpace model ! i) = None
             \<longrightarrow> si_name (spaces r ! i) = ''Space_'' @ take 8 (GlobalId (IfcSpace model ! i)))
        \<and> (ObjectType (IfcSpace model ! i) = Some [] \<or> ObjectType (IfcSpace model ! i) = None
             \<longrightarrow> si_type (spaces r ! i) = ''Generic'')
        \<and> (Name (IfcSpace model ! i) = Some []
             \<longrightarrow> map_of (case own_assignment_of model (IfcSpace model ! i) of PDict a \<Rightarrow> a | _ \<Rightarrow> [])
                   ''spaceName''
                 = Some (PStr (''Space_'' @ take 8 (GlobalId (IfcSpace model ! i)))))
        \<and> (ObjectType (IfcSpace model ! i) = Some []
             \<longrightarrow> map_of (case own_assignment_of model (IfcSpace model ! i) of PDict a \<Rightarrow> a | _ \<Rightarrow> [])
                   ''spaceType''
                 = Some (PStr ''Generic'')))"
proof -
  obtain r where r: "space_analysis model = Analysed r" "analysis_body model = Inr r"
    using space_analysis_value by blast
  with analysis_body_value [of model]
  have sp: "spaces r = fst (process_spaces model (IfcSpace model) ([], []))"
    by (auto simp: built_def)
  have len: "length (spaces r) = length (IfcSpace model)"
    by (simp add: sp process_spaces_length)
  have names: "map si_name (spaces r) = map space_name_of (IfcSpace model)"
    and types: "map si_type (spaces r) = map space_type_of (IfcSpace model)"
    by (simp_all add: sp process_spaces_names)
  have "\<forall>i < length (IfcSpace model).
          si_name (spaces r ! i) = space_name_of (IfcSpace model ! i)
        \<and> si_type (spaces r ! i) = space_type_of (IfcSpace model ! i)"
  proof (intro allI impI)
    fix i assume i: "i < length (IfcSpace model)"
    have "si_name (spaces r ! i) = map si_name (spaces r) ! i"
      "si_type (spaces r ! i) = map si_type (spaces r) ! i"
      using i len by simp_all
    then show "si_name (spaces r ! i) = space_name_of (IfcSpace model ! i)
        \<and> si_type (spaces r ! i) = space_type_of (IfcSpace model ! i)"
      using i by (simp add: names types)
  qed
  then show ?thesis
    using r len
    by (auto simp: space_name_of_def space_type_of_def str_or_empty str_or_None
        own_assignment_of_def)
qed

theorem falsy_fallbacks_witness:
  "\<exists>r. space_analysis ex_model = Analysed r
     \<and> length (spaces r) = 2
     \<and> si_name (spaces r ! 1) = ''Space_3SpaceUn''
     \<and> si_type (spaces r ! 1) = ''Generic''
     \<and> si_type (spaces r ! 0) = ''Generic''"
proof -
  have sp: "IfcSpace ex_model = [ex_corridor, ex_unnamed]"
    by (simp add: ex_model_def)
  have attrs: "Name ex_unnamed = Some []" "ObjectType ex_unnamed = Some []"
    "ObjectType ex_corridor = None" "GlobalId ex_unnamed = ''3SpaceUnnamed01''"
    by (simp_all add: ex_unnamed_def ex_corridor_def)
  from falsy_fallbacks [of ex_model] obtain r where
    r: "space_analysis ex_model = Analysed r" "length (spaces r) = length (IfcSpace ex_model)"
    and all: "\<forall>i < length (IfcSpace ex_model).
          (Name (IfcSpace ex_model ! i) = Some [] \<or> Name (IfcSpace ex_model ! i) = None
             \<longrightarrow> si_name (spaces r ! i) = ''Space_'' @ take 8 (GlobalId (IfcSpace ex_model ! i)))
        \<and> (ObjectType (IfcSpace ex_model ! i) = Some [] \<or> ObjectType (IfcSpace ex_model ! i) = None
             \<longrightarrow> si_type (spaces r ! i) = ''Generic'')"
    by blast
  from all [rule_format, of 1] all [rule_format, of 0] r show ?thesis
    by (auto simp: sp attrs)
qed

subsection \<open>Unassigned elements\<close>

lemma in_storey_iff: "in_storey rels element = list_ex (\<lambda>rel. element \<in> set (RelatedElements rel)) rels"
  by (induction rels) auto

lemma find_unassigned_filter:
  "find_unassigned model esm els acc =
     acc @ map element_info_of
             [e \<leftarrow> els. GlobalId e \<notin> set (dict_keys esm) \<and> \<not> contained_anywhere model e]"
  by (induction els arbitrary: acc) (auto simp: in_storey_iff contained_anywhere_def)

lemma element_info_id: "ei_id (element_info_of e) = GlobalId e"
  by (simp add: element_info_of_def)

text \<open>
  Claim C9.  The analysis returns a result whose unassigned list is made, in order, of
  the elements whose GlobalId is not a key of the table and which no containment
  relationship relates.  So the id of every unassigned entry is absent from the table;
  and an element that some containment relationship relates is not in the unassigned
  list, also when its GlobalId is absent from the table (GlobalIds being unique among
  the elements).
\<close>

theorem unassigned_disjoint:
  "\<exists>r. space_analysis model = Analysed r
     \<and> unassigned_elements r =
         map element_info_of
           [e \<leftarrow> IfcElement model.
              GlobalId e \<notin> set (dict_keys (element_space_map_of r))
              \<and> \<not> contained_anywhere model e]
     \<and> (\<forall>u \<in> set (unassigned_elements r). ei_id u \<notin> set (dict_keys (element_space_map_of r)))
     \<and> (inj_on GlobalId (set (IfcElement model)) \<longrightarrow>
          (\<forall>e \<in> set (IfcElement model).
             contained_anywhere model e
               \<longrightarrow> GlobalId e \<notin> ei_id ` set (unassigned_elements r)))"
proof -
  obtain r where r: "space_analysis model = Analysed r" "analysis_body model = Inr r"
    using space_analysis_value by blast
  with analysis_body_value [of model]
  have "unassigned_elements r =
          find_unassigned model (element_space_map_of r) (IfcElement model) []"
    by auto
  then have un: "unassigned_elements r =
         map element_info_of
           [e \<leftarrow> IfcElement model.
              GlobalId e \<notin> set (dict_keys (element_space_map_of r))
              \<and> \<not> contained_anywhere model e]"
    by (simp add: find_unassigned_filter)
  have absent: "\<forall>u \<in> set (unassigned_elements r). ei_id u \<notin> set (dict_keys (element_space_map_of r))"
    unfolding un by (auto simp: element_info_id)
  have gap: "inj_on GlobalId (set (IfcElement model)) \<longrightarrow>
          (\<forall>e \<in> set (IfcElement model).
             contained_anywhere model e
               \<longrightarrow> GlobalId e \<notin> ei_id ` set (unassigned_elements r))"
  proof (intro impI ballI)
    fix e
    assume inj: "inj_on GlobalId (set (IfcElement model))"
      and e: "e \<in> set (IfcElement model)" and c: "contained_anywhere model e"
    show "GlobalId e \<notin> ei_id ` set (unassigned_elements r)"
    proof
      assume "GlobalId e \<in> ei_id ` set (unassigned_elements r)"
      then obtain e' where e': "e' \<in> set (IfcElement model)" "\<not> contained_anywhere model e'"
        "GlobalId e' = GlobalId e"
        unfolding un by (auto simp: element_info_id)
      with inj e have "e' = e" by (auto dest: inj_onD)
      with e' c show False by simp
    qed
  qed
  from r un absent gap show ?thesis by blast
qed

lemma ex_table:
  "snd (built ex_model) =
     [(''4WallW1'', \<lparr>space_id = ''3SpaceUnnamed01'', space_name = ''Space_3SpaceUn'',
                     space_type = ''Generic'', storey = Some ''L1''\<rparr>)]"
  by (simp add: built_def ex_model_def process_space_def assignment_of_def space_name_of_def
      space_type_of_def str_or_def is_a_def space_quantities_def dict_set_def
      ex_aggregates_def ex_in_corridor_def ex_in_unnamed_def ex_in_storey_def
      ex_unnamed_def ex_corridor_def ex_building_def ex_storey_def ex_wall_def ex_door_def)

theorem unassigned_disjoint_witness:
  "\<exists>r. space_analysis ex_model = Analysed r
     \<and> unassigned_elements r = [\<lparr>ei_id = ''6ColumnC1'', ei_type = ''IfcColumn'', ei_name = ''C1''\<rparr>]
     \<and> ''6ColumnC1'' \<notin> set (dict_keys (element_space_map_of r))
     \<and> ''5DoorD1'' \<notin> set (dict_keys (element_space_map_of r))
     \<and> ''5DoorD1'' \<notin> ei_id ` set (unassigned_elements r)"
proof -
  obtain r where r: "space_analysis ex_model = Analysed r"
    and un: "unassigned_elements r =
         map element_info_of
           [e \<leftarrow> IfcElement ex_model.
              GlobalId e \<notin> set (dict_keys (element_space_map_of r))
              \<and> \<not> contained_anywhere ex_model e]"
    and absent: "\<forall>u \<in> set (unassigned_elements r).
         ei_id u \<notin> set (dict_keys (element_space_map_of r))"
    and gap: "inj_on GlobalId (set (IfcElement ex_model)) \<longrightarrow>
          (\<forall>e \<in> set (IfcElement ex_model).
             contained_anywhere ex_model e
               \<longrightarrow> GlobalId e \<notin> ei_id ` set (unassigned_elements r))"
    using unassigned_disjoint [of ex_model] by blast
  obtain r' where r': "space_analysis ex_model = Analysed r'" "analysis_body ex_model = Inr r'"
    using space_analysis_value by blast
  with r have "r' = r" by simp
  with r' analysis_body_value [of ex_model]
  have keys: "dict_keys (element_space_map_of r) = [''4WallW1'']"
    by (auto simp: ex_table dict_keys_def)
  have els: "IfcElement ex_model = [ex_wall, ex_door, ex_column]"
    by (simp add: ex_model_def)
  have cont: "contained_anywhere ex_model ex_wall" "contained_anywhere ex_model ex_door"
    "\<not> contained_anywhere ex_model ex_column"
    by (simp_all add: contained_anywhere_def ex_model_def ex_in_corridor_def ex_in_unnamed_def
        ex_in_storey_def ex_wall_def ex_door_def ex_column_def)
  have ids: "GlobalId ex_wall = ''4WallW1''" "GlobalId ex_door = ''5DoorD1''"
    "GlobalId ex_column = ''6ColumnC1''"
    by (simp_all add: ex_wall_def ex_door_def ex_column_def)
  have col: "element_info_of ex_column =
      \<lparr>ei_id = ''6ColumnC1'', ei_type = ''IfcColumn'', ei_name = ''C1''\<rparr>"
    by (simp add: element_info_of_def ex_column_def str_or_def)
  have list: "unassigned_elements r =
      [\<lparr>ei_id = ''6ColumnC1'', ei_type = ''IfcColumn'', ei_name = ''C1''\<rparr>]"
    unfolding un keys els by (simp add: cont ids col)
  have "inj_on GlobalId (set (IfcElement ex_model))"
    unfolding els by (simp add: inj_on_def ids)
  with gap cont(2) have door: "GlobalId ex_door \<notin> ei_id ` set (unassigned_elements r)"
    by (simp add: els)
  from absent have "''6ColumnC1'' \<notin> set (dict_keys (element_space_map_of r))"
    by (simp add: list)
  with r list keys door show ?thesis by (simp add: ids)
qed

subsection \<open>Rounding\<close>

lemma round_half_even_close: "\<bar>of_int (round_half_even x) - x\<bar> \<le> 1 / 2"
proof -
  have "of_int \<lfloor>x\<rfloor> \<le> x" and "x < of_int \<lfloor>x\<rfloor> + 1" by linarith+
  then show ?thesis
    by (auto simp: round_half_even_def Let_def)
qed

lemma round_half_even_zero: "round_half_even 0 = 0"
  by (simp add: round_half_even_def)

lemma py_round_zero: "py_round 0 n = 0"
  by (simp add: py_round_def round_half_even_zero)

lemma abs_hundredth:
  fixes x :: real
  shows "\<bar>x\<bar> \<le> 1 \<Longrightarrow> \<bar>x / 100\<bar> \<le> 1 / 100"
  by simp

text \<open>
  Rounding two parts and their sum to two decimals separately moves the sum of the
  rounded parts away from the rounded sum by one unit of the second decimal at most.
\<close>

lemma py_round_sum_close: "\<bar>py_round c 2 + py_round p 2 - py_round (c + p) 2\<bar> \<le> 1 / 100"
proof -
  define a b t where "a = round_half_even (c * 100)" and "b = round_half_even (p * 100)"
    and "t = round_half_even ((c + p) * 100)"
  have "\<bar>of_int a - c * 100\<bar> \<le> 1 / 2" "\<bar>of_int b - p * 100\<bar> \<le> 1 / 2"
    unfolding a_def b_def by (rule round_half_even_close)+
  moreover have "\<bar>of_int t - (c * 100 + p * 100)\<bar> \<le> 1 / 2"
    using round_half_even_close [of "(c + p) * 100"] by (simp add: t_def distrib_right)
  ultimately have "\<bar>(of_int a :: real) + of_int b - of_int t\<bar> \<le> 3 / 2"
    by linarith
  then have "\<bar>(of_int (a + b - t) :: real)\<bar> < 2" by simp
  then have "\<bar>a + b - t\<bar> < 2" by linarith
  then have "\<bar>a + b - t\<bar> \<le> 1" by simp
  then have "\<bar>(of_int (a + b - t) :: real)\<bar> \<le> 1" by linarith
  then have "\<bar>(of_int (a + b - t) :: real) / 100\<bar> \<le> 1 / 100" by (rule abs_hundredth)
  moreover have "py_round c 2 + py_round p 2 - py_round (c + p) 2 = of_int (a + b - t) / 100"
    by (simp add: py_round_def a_def b_def t_def field_simps)
  ultimately show ?thesis by (simp only:)
qed

subsection \<open>A model without spaces\<close>

text \<open>
  Claim C8.  The two guarded divisions never raise, and the analysis returns a result
  for every model.  Without spaces the result has no space records and an empty
  table, and its total area and average height are \<open>0\<close>.  Whenever the total area is
  \<open>0\<close>, both percentages are \<open>0\<close>.
\<close>

theorem no_spaces:
  "(\<forall>sd. \<exists>h. avg_height sd = Inr h)
   \<and> (\<forall>part whole. \<exists>q. percentage part whole = Inr q)
   \<and> (\<exists>r. space_analysis model = Analysed r
        \<and> (IfcSpace model = [] \<longrightarrow>
             spaces r = [] \<and> element_space_map_of r = []
             \<and> total_area (summary_of r) = 0 \<and> average_height (summary_of r) = 0)
        \<and> (area_sum (spaces r) = 0 \<longrightarrow>
             cs_percentage (circulation (summary_of r)) = 0
             \<and> cs_percentage (program (summary_of r)) = 0))"
proof -
  obtain r where r: "space_analysis model = Analysed r" "analysis_body model = Inr r"
    using space_analysis_value by blast
  note v = analysis_body_value [of model]
  from r v have sp: "spaces r = fst (built model)" and tab: "element_space_map_of r = snd (built model)"
    by auto
  have empty: "IfcSpace model = [] \<longrightarrow>
             spaces r = [] \<and> element_space_map_of r = []
             \<and> total_area (summary_of r) = 0 \<and> average_height (summary_of r) = 0"
  proof
    assume "IfcSpace model = []"
    then have "built model = ([], [])" by (simp add: built_def)
    with r v show "spaces r = [] \<and> element_space_map_of r = []
             \<and> total_area (summary_of r) = 0 \<and> average_height (summary_of r) = 0"
      by (auto simp: area_sum_def py_round_zero)
  qed
  have zero: "area_sum (spaces r) = 0 \<longrightarrow>
             cs_percentage (circulation (summary_of r)) = 0
             \<and> cs_percentage (program (summary_of r)) = 0"
    using r v by (auto simp: sp)
  from r empty zero show ?thesis
    by (auto simp: avg_height_value percentage_value)
qed

theorem no_spaces_witness:
  "\<exists>r. space_analysis ex_no_spaces = Analysed r
     \<and> spaces r = [] \<and> element_space_map_of r = []
     \<and> total_area (summary_of r) = 0 \<and> average_height (summary_of r) = 0
     \<and> cs_percentage (circulation (summary_of r)) = 0
     \<and> cs_percentage (program (summary_of r)) = 0"
proof -
  have e: "IfcSpace ex_no_spaces = []" by (simp add: ex_no_spaces_def)
  from no_spaces [of ex_no_spaces] obtain r where
    r: "space_analysis ex_no_spaces = Analysed r"
    and empty: "IfcSpace ex_no_spaces = [] \<longrightarrow>
             spaces r = [] \<and> element_space_map_of r = []
             \<and> total_area (summary_of r) = 0 \<and> average_height (summary_of r) = 0"
    and zero: "area_sum (spaces r) = 0 \<longrightarrow>
             cs_percentage (circulation (summary_of r)) = 0
             \<and> cs_percentage (program (summary_of r)) = 0"
    by blast
  from empty e have f: "spaces r = [] \<and> element_space_map_of r = []
             \<and> total_area (summary_of r) = 0 \<and> average_height (summary_of r) = 0"
    by blast
  then have "area_sum (spaces r) = 0" by (simp add: area_sum_def)
  with zero r f show ?thesis by blast
qed

subsection \<open>Circulation and program spaces\<close>

lemma starts_with_iff: "starts_with s k \<longleftrightarrow> (\<exists>q. s = k @ q)"
  by (induction s k rule: starts_with.induct) auto

lemma str_contains_iff: "str_contains s k \<longleftrightarrow> has_part s k"
proof (induction s)
  case Nil
  show ?case by (auto simp: has_part_def)
next
  case (Cons c cs)
  show ?case
  proof
    assume "str_contains (c # cs) k"
    then consider "starts_with (c # cs) k" | "str_contains cs k" by auto
    then show "has_part (c # cs) k"
    proof cases
      case 1
      then obtain q where "c # cs = k @ q" unfolding starts_with_iff by blast
      then have "c # cs = [] @ k @ q" by simp
      then show ?thesis unfolding has_part_def by blast
    next
      case 2
      with Cons.IH obtain p q where "cs = p @ k @ q" unfolding has_part_def by blast
      then have "c # cs = (c # p) @ k @ q" by simp
      then show ?thesis unfolding has_part_def by blast
    qed
  next
    assume "has_part (c # cs) k"
    then obtain p q where pq: "c # cs = p @ k @ q" unfolding has_part_def by blast
    show "str_contains (c # cs) k"
    proof (cases p)
      case Nil
      with pq have "starts_with (c # cs) k" unfolding starts_with_iff by auto
      then show ?thesis by simp
    next
      case (Cons c' p')
      with pq have "cs = p' @ k @ q" by simp
      then have "has_part cs k" unfolding has_part_def by blast
      with Cons.IH show ?thesis by simp
    qed
  qed
qed

lemma is_circulation_iff: "is_circulation space \<longleftrightarrow> circulation_spec space"
  by (auto simp: is_circulation_def circulation_spec_def list_ex_iff str_contains_iff)

lemma classify_filter:
  "classify sd (cs, ps) = (cs @ filter is_circulation sd, ps @ filter (\<lambda>s. \<not> is_circulation s) sd)"
  by (induction sd arbitrary: cs ps) auto

lemma area_sum_split:
  "area_sum (filter P sd) + area_sum (filter (\<lambda>s. \<not> P s) sd) = area_sum sd"
  by (induction sd) (auto simp: area_sum_def)

lemma analysis_body_areas:
  assumes "analysis_body model = Inr r"
  shows "cs_area (circulation (summary_of r)) = py_round (area_sum (fst (classify (spaces r) ([], [])))) 2"
    and "cs_area (program (summary_of r)) = py_round (area_sum (snd (classify (spaces r) ([], [])))) 2"
    and "total_area (summary_of r) = py_round (area_sum (spaces r)) 2"
  using assms
  by (auto simp: analysis_body_def avg_height_value percentage_value Let_def split: prod.splits)

text \<open>
  Claim C7.  The classification loop puts every space record into exactly one of the
  two lists: the circulation list holds the records for which the lower-cased name or
  the lower-cased type has one of the six keywords as a contiguous part, the program
  list holds the others.  The areas of the two lists add up to the total area; the
  three areas the summary reports, each rounded to two decimals, agree up to one unit
  of the second decimal.
\<close>

theorem classification_partition:
  "fst (classify sd ([], [])) = filter circulation_spec sd
   \<and> snd (classify sd ([], [])) = filter (\<lambda>s. \<not> circulation_spec s) sd
   \<and> (\<forall>s \<in> set sd.
        (s \<in> set (fst (classify sd ([], []))) \<and> s \<notin> set (snd (classify sd ([], []))))
      \<or> (s \<notin> set (fst (classify sd ([], []))) \<and> s \<in> set (snd (classify sd ([], [])))))
   \<and> area_sum (fst (classify sd ([], []))) + area_sum (snd (classify sd ([], []))) = area_sum sd
   \<and> (\<exists>r. space_analysis model = Analysed r
        \<and> \<bar>cs_area (circulation (summary_of r)) + cs_area (program (summary_of r))
             - total_area (summary_of r)\<bar> \<le> 1 / 100)"
proof -
  have eq: "is_circulation = circulation_spec"
    by (rule ext) (rule is_circulation_iff)
  have c: "fst (classify sd ([], [])) = filter circulation_spec sd"
    and p: "snd (classify sd ([], [])) = filter (\<lambda>s. \<not> circulation_spec s) sd"
    by (simp_all add: classify_filter eq)
  have one: "\<forall>s \<in> set sd.
        (s \<in> set (fst (classify sd ([], []))) \<and> s \<notin> set (snd (classify sd ([], []))))
      \<or> (s \<notin> set (fst (classify sd ([], []))) \<and> s \<in> set (snd (classify sd ([], []))))"
    unfolding c p by auto
  have sum: "area_sum (fst (classify sd ([], []))) + area_sum (snd (classify sd ([], []))) = area_sum sd"
    unfolding c p by (rule area_sum_split)
  obtain r where r: "space_analysis model = Analysed r" "analysis_body model = Inr r"
    using space_analysis_value by blast
  have "area_sum (fst (classify (spaces r) ([], []))) + area_sum (snd (classify (spaces r) ([], [])))
          = area_sum (spaces r)"
    by (simp add: classify_filter area_sum_split)
  then have "\<bar>cs_area (circulation (summary_of r)) + cs_area (program (summary_of r))
             - total_area (summary_of r)\<bar> \<le> 1 / 100"
    using py_round_sum_close
      [of "area_sum (fst (classify (spaces r) ([], [])))"
          "area_sum (snd (classify (spaces r) ([], [])))"]
    by (simp add: analysis_body_areas [OF r(2)])
  with r c p one sum show ?thesis by blast
qed

lemma ex_classes: "is_circulation ex_corridor_info" "\<not> is_circulation ex_office_info"
  by (simp_all add: ex_corridor_info_def ex_office_info_def) code_simp+

theorem classification_partition_witness:
  "classify [ex_corridor_info, ex_office_info] ([], []) = ([ex_corridor_info], [ex_office_info])
   \<and> area_sum [ex_corridor_info] + area_sum [ex_office_info] = 100"
proof -
  note t = classification_partition [of "[ex_corridor_info, ex_office_info]" ex_model]
  have spec: "circulation_spec ex_corridor_info" "\<not> circulation_spec ex_office_info"
    using ex_classes by (simp_all add: is_circulation_iff)
  have c: "fst (classify [ex_corridor_info, ex_office_info] ([], [])) = [ex_corridor_info]"
    using t [THEN conjunct1] spec by simp
  have p: "snd (classify [ex_corridor_info, ex_office_info] ([], [])) = [ex_office_info]"
    using t [THEN conjunct2, THEN conjunct1] spec by simp
  have "area_sum [ex_corridor_info, ex_office_info] = 100"
    by (simp add: area_sum_def ex_corridor_info_def ex_office_info_def)
  with t [THEN conjunct2, THEN conjunct2, THEN conjunct2, THEN conjunct1]
  have "area_sum [ex_corridor_info] + area_sum [ex_office_info] = 100"
    unfolding c p by simp
  moreover have "classify [ex_corridor_info, ex_office_info] ([], []) = ([ex_corridor_info], [ex_office_info])"
    using c p by (simp add: prod_eq_iff)
  ultimately show ?thesis by simp
qed

end
